theory Spec2Isabelle
  imports Complex_Main
begin

section \<open>Vendor Voice: the database migrations and the pages that use them\<close>

text \<open>
  The repository holds two SQL migrations and a React client. Both migrations create
  the same five tables, so they are alternatives and not successive steps:

  \<^item> migration 000 (\<^verbatim>\<open>src/unnamed/part_000\<close>): enum-typed columns, the stored
    aggregates \<^verbatim>\<open>vendors.average_rating\<close> and \<^verbatim>\<open>vendors.total_ratings\<close>, the trigger
    function \<^verbatim>\<open>update_vendor_rating\<close>. The generated \<^verbatim>\<open>types.ts\<close> describes this one.
  \<^item> migration 001 (\<^verbatim>\<open>src/unnamed/part_001\<close>): text columns with CHECK constraints,
    \<^verbatim>\<open>ON DELETE\<close> actions on the foreign keys, the trigger function
    \<^verbatim>\<open>handle_new_user\<close>. The pages insert with this one's column names.

  Names of migration 000 are kept as they are in the source (with a one-letter table
  prefix on column names, since every table has an \<^verbatim>\<open>id\<close>); names of migration 001
  carry the digit 1.

  A table is the list of its rows, a nullable column is an \<open>option\<close>, a \<^verbatim>\<open>NOT NULL\<close>
  column is not. A UUID and a timestamp are natural numbers: only equality of
  identifiers and the value \<^verbatim>\<open>now()\<close> passed in matter. A statement that PostgreSQL
  aborts returns \<open>Inl\<close> of the error condition, and the database is then the one
  before the statement.
\<close>

type_synonym uuid = nat
type_synonym timestamptz = nat

datatype error =
    insufficient_privilege
  | check_violation
  | unique_violation
  | foreign_key_violation
  | numeric_value_out_of_range

text \<open>
  \<open>insufficient_privilege\<close> (SQLSTATE 42501) is what a row-level-security
  \<^verbatim>\<open>WITH CHECK\<close> failure raises, \<open>check_violation\<close> (23514) a failed \<^verbatim>\<open>CHECK\<close>,
  \<open>unique_violation\<close> (23505) a duplicate key, \<open>foreign_key_violation\<close> (23503) a
  dangling or still-referenced key, \<open>numeric_value_out_of_range\<close> (22003) a value
  that does not fit a \<^verbatim>\<open>DECIMAL(p,s)\<close> column. The specification calls the first
  four AuthorizationError, ValidationError, ConflictError and NotFoundError.
\<close>

definition state_after :: "'s \<Rightarrow> error + 's \<Rightarrow> 's" where
  "state_after db res = (case res of Inl e \<Rightarrow> db | Inr db' \<Rightarrow> db')"

subsection \<open>SQL expressions used by the trigger functions\<close>

fun COALESCE :: "'a option \<Rightarrow> 'a option \<Rightarrow> 'a option" where
  "COALESCE (Some x) y = Some x"
| "COALESCE None y = y"

definition AVG :: "int list \<Rightarrow> rat option" where
  "AVG xs = (if xs = [] then None else Some (of_int (sum_list xs) / of_int (int (length xs))))"

definition COUNT :: "'a list \<Rightarrow> int" where
  "COUNT xs = int (length xs)"

definition ROUND :: "rat \<Rightarrow> nat \<Rightarrow> rat" where
  "ROUND x s = sgn x * of_int \<lfloor>\<bar>x\<bar> * 10 ^ s + 1 / 2\<rfloor> / 10 ^ s"

definition fits_decimal_2_1 :: "rat option \<Rightarrow> bool" where
  "fits_decimal_2_1 x = (case x of None \<Rightarrow> True | Some q \<Rightarrow> \<bar>ROUND q 1\<bar> < 10)"

text \<open>
  \<open>AVG\<close> of no rows is \<^verbatim>\<open>NULL\<close>, and \<open>ROUND\<close> on \<^verbatim>\<open>numeric\<close> rounds half away
  from zero. PostgreSQL computes \<^verbatim>\<open>AVG(integer)\<close> as a \<^verbatim>\<open>numeric\<close> quotient with at least
  sixteen significant digits; the model takes the quotient exactly, which gives the same
  value after \<open>ROUND _ 1\<close> for any table of fewer than \<open>10 ^ 14\<close> rows. A
  \<^verbatim>\<open>DECIMAL(2,1)\<close> column holds one digit before the point. \<open>COUNT\<close> is taken to fit
  the \<^verbatim>\<open>INTEGER\<close> column it is stored in, which it does below \<open>2 ^ 31\<close> rows.
\<close>

subsection \<open>Migration 000: types and tables\<close>

datatype complaint_status = pending | investigating | resolved | dismissed

datatype complaint_category =
  food_quality | pricing | hygiene | location_issue | licensing | other

datatype user_role = consumer | vendor | authority | admin

record areas_row =
  a_id :: uuid
  a_name :: string
  a_district :: string
  a_state :: string
  a_pincode :: "string option"
  a_created_at :: timestamptz

record profiles_row =
  p_id :: uuid
  p_user_id :: uuid
  p_full_name :: string
  p_phone :: "string option"
  p_area_id :: "uuid option"
  p_role :: user_role
  p_is_verified :: "bool option"
  p_created_at :: timestamptz
  p_updated_at :: timestamptz

record vendors_row =
  v_id :: uuid
  v_profile_id :: uuid
  v_business_name :: string
  v_license_number :: "string option"
  v_area_id :: uuid
  v_location_description :: string
  v_food_types :: "string list option"
  v_is_licensed :: "bool option"
  v_average_rating :: "rat option"
  v_total_ratings :: "int option"
  v_created_at :: timestamptz
  v_updated_at :: timestamptz

record complaints_row =
  c_id :: uuid
  c_complainant_id :: uuid
  c_vendor_id :: "uuid option"
  c_area_id :: uuid
  c_category :: complaint_category
  c_title :: string
  c_description :: string
  c_status :: complaint_status
  c_priority :: "int option"
  c_assigned_to :: "uuid option"
  c_resolution_notes :: "string option"
  c_resolved_at :: "timestamptz option"
  c_created_at :: timestamptz
  c_updated_at :: timestamptz

record ratings_row =
  r_id :: uuid
  r_vendor_id :: uuid
  r_customer_id :: uuid
  r_rating :: int
  r_review :: "string option"
  r_food_quality_rating :: "int option"
  r_price_rating :: "int option"
  r_hygiene_rating :: "int option"
  r_created_at :: timestamptz

record database =
  areas :: "areas_row list"
  profiles :: "profiles_row list"
  vendors :: "vendors_row list"
  complaints :: "complaints_row list"
  ratings :: "ratings_row list"

subsection \<open>Migration 000: the ratings table\<close>

text \<open>
  The four \<^verbatim>\<open>CHECK\<close> constraints of \<^verbatim>\<open>ratings\<close>. A \<^verbatim>\<open>CHECK\<close> whose expression
  is \<^verbatim>\<open>NULL\<close> passes, so an absent sub-rating is accepted. A row holds values of
  its columns' types: what is not an integer, or not a 32-bit one, never becomes a row
  to be checked.
\<close>

fun check_1_5 :: "int option \<Rightarrow> bool" where
  "check_1_5 None = True"
| "check_1_5 (Some x) = (x \<ge> 1 \<and> x \<le> 5)"

definition ratings_check :: "ratings_row \<Rightarrow> bool" where
  "ratings_check r =
     (r_rating r \<ge> 1 \<and> r_rating r \<le> 5
      \<and> check_1_5 (r_food_quality_rating r)
      \<and> check_1_5 (r_price_rating r)
      \<and> check_1_5 (r_hygiene_rating r))"

text \<open>
  \<^verbatim>\<open>id ... PRIMARY KEY\<close> and \<^verbatim>\<open>UNIQUE(vendor_id, customer_id)\<close>: the keys a new row
  must not share with a row of the table.
\<close>

definition ratings_unique :: "ratings_row \<Rightarrow> ratings_row list \<Rightarrow> bool" where
  "ratings_unique r rs =
     (\<not> list_ex (\<lambda>r'. r_id r' = r_id r) rs
      \<and> \<not> list_ex (\<lambda>r'. r_vendor_id r' = r_vendor_id r \<and> r_customer_id r' = r_customer_id r) rs)"

text \<open>
  \<^verbatim>\<open>vendor_id ... REFERENCES public.vendors(id)\<close> and
  \<^verbatim>\<open>customer_id ... REFERENCES public.profiles(id)\<close>.
\<close>

definition ratings_references :: "ratings_row \<Rightarrow> database \<Rightarrow> bool" where
  "ratings_references r db =
     (list_ex (\<lambda>v. v_id v = r_vendor_id r) (vendors db)
      \<and> list_ex (\<lambda>p. p_id p = r_customer_id r) (profiles db))"

text \<open>
  Who runs a statement. The roles of the API, \<^verbatim>\<open>anon\<close> and \<^verbatim>\<open>authenticated\<close>, are
  subject to the row-level-security policies, with \<^verbatim>\<open>auth.uid()\<close> the caller's
  identity (\<^verbatim>\<open>NULL\<close> for a caller who is not signed in); the owner of the tables and
  the service role are not. The API roles hold the table privileges, as the policies
  presuppose.
\<close>

datatype session = bypass_rls | api "uuid option"

definition own_profile_ids :: "uuid option \<Rightarrow> database \<Rightarrow> uuid list" where
  "own_profile_ids uid db = map p_id (filter (\<lambda>p. Some (p_user_id p) = uid) (profiles db))"

text \<open>
  The update policy of \<^verbatim>\<open>vendors\<close>, \<^verbatim>\<open>"Vendors can update their own data"\<close>
  (part_000, lines 112 to 117): the vendor's profile is a profile of the caller. The
  \<^verbatim>\<open>SELECT\<close> policy of \<^verbatim>\<open>vendors\<close> is \<^verbatim>\<open>USING (true)\<close>.
\<close>

definition vendors_can_update_their_own_data ::
  "uuid option \<Rightarrow> database \<Rightarrow> vendors_row \<Rightarrow> bool"
where
  "vendors_can_update_their_own_data uid db v =
     list_ex (\<lambda>p. p_id p = v_profile_id v \<and> Some (p_user_id p) = uid) (profiles db)"

definition may_update_vendor :: "session \<Rightarrow> database \<Rightarrow> vendors_row \<Rightarrow> bool" where
  "may_update_vendor s db v =
     (case s of
        bypass_rls \<Rightarrow> True
      | api uid \<Rightarrow> vendors_can_update_their_own_data uid db v)"

text \<open>
  The trigger function \<^verbatim>\<open>update_vendor_rating\<close> (part_000, lines 193 to 212), with
  \<open>NEW\<close> and \<open>OLD\<close> as the trigger receives them: \<open>NEW\<close> is \<^verbatim>\<open>NULL\<close> on a delete,
  \<open>OLD\<close> on an insert. The function is not declared \<^verbatim>\<open>SECURITY DEFINER\<close>, so its
  \<^verbatim>\<open>UPDATE public.vendors\<close> runs as the caller of the statement on \<^verbatim>\<open>ratings\<close>: in a
  session of the API it sees only the vendor rows the caller may update, and a row it
  does not see is skipped without an error. The policy does not depend on the columns
  the update assigns, so a row that was seen passes the policy afterwards as well.
  The update of a vendor row fires \<^verbatim>\<open>update_vendors_updated_at\<close>, which sets
  \<^verbatim>\<open>updated_at\<close> to \<^verbatim>\<open>now()\<close>. The two subqueries read \<^verbatim>\<open>ratings\<close>, which everyone may
  read.
\<close>

definition ratings_of :: "uuid \<Rightarrow> database \<Rightarrow> ratings_row list" where
  "ratings_of vid db = filter (\<lambda>r. r_vendor_id r = vid) (ratings db)"

definition update_vendor_rating ::
  "session \<Rightarrow> timestamptz \<Rightarrow> ratings_row option \<Rightarrow> ratings_row option \<Rightarrow> database
    \<Rightarrow> error + database"
where
  "update_vendor_rating s now NEW OLD db =
     (case COALESCE (map_option r_vendor_id NEW) (map_option r_vendor_id OLD) of
        None \<Rightarrow> Inr db
      | Some vid \<Rightarrow>
          (let average = map_option (\<lambda>q. ROUND q 1) (AVG (map r_rating (ratings_of vid db)));
               total = COUNT (ratings_of vid db)
           in if list_ex (\<lambda>v. v_id v = vid \<and> may_update_vendor s db v) (vendors db)
                 \<and> \<not> fits_decimal_2_1 average
              then Inl numeric_value_out_of_range
              else Inr (db\<lparr>vendors :=
                     map (\<lambda>v. if v_id v = vid \<and> may_update_vendor s db v
                               then v\<lparr>v_average_rating := average,
                                      v_total_ratings := Some total,
                                      v_updated_at := now\<rparr>
                               else v)
                         (vendors db)\<rparr>)))"

text \<open>
  The database after the trigger's \<^verbatim>\<open>UPDATE public.vendors ... WHERE id = vid\<close> in
  session \<open>s\<close>.
\<close>

definition recomputed :: "session \<Rightarrow> timestamptz \<Rightarrow> uuid \<Rightarrow> database \<Rightarrow> database" where
  "recomputed s now vid db =
     db\<lparr>vendors :=
          map (\<lambda>v. if v_id v = vid \<and> may_update_vendor s db v
                    then v\<lparr>v_average_rating :=
                             map_option (\<lambda>q. ROUND q 1) (AVG (map r_rating (ratings_of vid db))),
                           v_total_ratings := Some (COUNT (ratings_of vid db)),
                           v_updated_at := now\<rparr>
                    else v)
              (vendors db)\<rparr>"

text \<open>
  The statements on \<^verbatim>\<open>ratings\<close> once the policies of \<^verbatim>\<open>ratings\<close> have let them
  through, in session \<open>s\<close>. PostgreSQL checks the \<^verbatim>\<open>CHECK\<close> constraints, then the
  unique indexes, then the foreign keys (of an updated row, those whose column
  changed), and then fires \<^verbatim>\<open>update_vendor_rating_trigger\<close>
  (\<^verbatim>\<open>AFTER INSERT OR UPDATE OR DELETE ... FOR EACH ROW\<close>). An update or delete names its
  row by primary key; a key that no row has changes nothing.
\<close>

definition insert_into_ratings ::
  "session \<Rightarrow> timestamptz \<Rightarrow> ratings_row \<Rightarrow> database \<Rightarrow> error + database"
where
  "insert_into_ratings s now r db =
     (if \<not> ratings_check r then Inl check_violation
      else if \<not> ratings_unique r (ratings db) then Inl unique_violation
      else if \<not> ratings_references r db then Inl foreign_key_violation
      else update_vendor_rating s now (Some r) None (db\<lparr>ratings := ratings db @ [r]\<rparr>))"

definition ratings_references_changed :: "ratings_row \<Rightarrow> ratings_row \<Rightarrow> database \<Rightarrow> bool" where
  "ratings_references_changed old new db =
     ((r_vendor_id new = r_vendor_id old
        \<or> list_ex (\<lambda>v. v_id v = r_vendor_id new) (vendors db))
      \<and> (r_customer_id new = r_customer_id old
        \<or> list_ex (\<lambda>p. p_id p = r_customer_id new) (profiles db)))"

definition update_ratings ::
  "session \<Rightarrow> timestamptz \<Rightarrow> uuid \<Rightarrow> (ratings_row \<Rightarrow> ratings_row) \<Rightarrow> database
    \<Rightarrow> error + database"
where
  "update_ratings s now rid set_clause db =
     (case find (\<lambda>r. r_id r = rid) (ratings db) of
        None \<Rightarrow> Inr db
      | Some old \<Rightarrow>
          (let new = set_clause old
           in if \<not> ratings_check new then Inl check_violation
              else if \<not> ratings_unique new (filter (\<lambda>r. r_id r \<noteq> rid) (ratings db))
                then Inl unique_violation
              else if \<not> ratings_references_changed old new db then Inl foreign_key_violation
              else update_vendor_rating s now (Some new) (Some old)
                     (db\<lparr>ratings := map (\<lambda>r. if r_id r = rid then new else r) (ratings db)\<rparr>)))"

definition delete_from_ratings ::
  "session \<Rightarrow> timestamptz \<Rightarrow> uuid \<Rightarrow> database \<Rightarrow> error + database"
where
  "delete_from_ratings s now rid db =
     (case find (\<lambda>r. r_id r = rid) (ratings db) of
        None \<Rightarrow> Inr db
      | Some old \<Rightarrow>
          update_vendor_rating s now None (Some old)
            (db\<lparr>ratings := filter (\<lambda>r. r_id r \<noteq> rid) (ratings db)\<rparr>))"

text \<open>
  Row-level security on \<^verbatim>\<open>ratings\<close>. The policies \<^verbatim>\<open>"Users can rate vendors"\<close> and
  \<^verbatim>\<open>"Users can update their own ratings"\<close> have the same expression.
\<close>

definition users_can_rate_vendors :: "uuid option \<Rightarrow> database \<Rightarrow> ratings_row \<Rightarrow> bool" where
  "users_can_rate_vendors uid db r = (r_customer_id r \<in> set (own_profile_ids uid db))"

definition users_can_update_their_own_ratings ::
  "uuid option \<Rightarrow> database \<Rightarrow> ratings_row \<Rightarrow> bool"
where
  "users_can_update_their_own_ratings uid db r =
     (r_customer_id r \<in> set (own_profile_ids uid db))"

text \<open>
  The statements as a caller of the API sends them. An insert whose row fails
  \<^verbatim>\<open>WITH CHECK\<close> is an error, raised before the table's constraints are looked at. An
  update sees only the rows that pass \<^verbatim>\<open>USING\<close> (the others are skipped without an
  error), and since the policy gives no \<^verbatim>\<open>WITH CHECK\<close>, the new row must pass
  \<^verbatim>\<open>USING\<close> as well. No policy of \<^verbatim>\<open>ratings\<close> is \<^verbatim>\<open>FOR DELETE\<close>, so a delete sees
  no row.
\<close>

definition rls_insert_into_ratings ::
  "uuid option \<Rightarrow> timestamptz \<Rightarrow> ratings_row \<Rightarrow> database \<Rightarrow> error + database"
where
  "rls_insert_into_ratings uid now r db =
     (if \<not> users_can_rate_vendors uid db r then Inl insufficient_privilege
      else insert_into_ratings (api uid) now r db)"

definition rls_update_ratings ::
  "uuid option \<Rightarrow> timestamptz \<Rightarrow> uuid \<Rightarrow> (ratings_row \<Rightarrow> ratings_row) \<Rightarrow> database
    \<Rightarrow> error + database"
where
  "rls_update_ratings uid now rid set_clause db =
     (case find (\<lambda>r. r_id r = rid) (ratings db) of
        None \<Rightarrow> Inr db
      | Some old \<Rightarrow>
          if \<not> users_can_update_their_own_ratings uid db old then Inr db
          else if \<not> users_can_update_their_own_ratings uid db (set_clause old)
            then Inl insufficient_privilege
          else update_ratings (api uid) now rid set_clause db)"

definition rls_delete_from_ratings ::
  "uuid option \<Rightarrow> timestamptz \<Rightarrow> uuid \<Rightarrow> database \<Rightarrow> error + database"
where
  "rls_delete_from_ratings uid now rid db = Inr db"

subsection \<open>Migration 000: the complaints table\<close>

text \<open>
  \<^verbatim>\<open>complaints\<close> has a primary key and four foreign keys and no \<^verbatim>\<open>CHECK\<close>. Nothing in
  the table definition relates \<^verbatim>\<open>resolved_at\<close> to \<^verbatim>\<open>status\<close>.
\<close>

definition references_opt :: "uuid option \<Rightarrow> uuid list \<Rightarrow> bool" where
  "references_opt k ids = (case k of None \<Rightarrow> True | Some i \<Rightarrow> i \<in> set ids)"

definition complaints_references :: "complaints_row \<Rightarrow> database \<Rightarrow> bool" where
  "complaints_references c db =
     (c_complainant_id c \<in> set (map p_id (profiles db))
      \<and> references_opt (c_vendor_id c) (map v_id (vendors db))
      \<and> c_area_id c \<in> set (map a_id (areas db))
      \<and> references_opt (c_assigned_to c) (map p_id (profiles db)))"


text \<open>
  \<^verbatim>\<open>update_complaints_updated_at\<close> runs \<^verbatim>\<open>update_updated_at_column\<close> before every
  update of a row: \<^verbatim>\<open>NEW.updated_at = now()\<close>, whatever the statement assigned.
\<close>

definition update_updated_at_column :: "timestamptz \<Rightarrow> complaints_row \<Rightarrow> complaints_row" where
  "update_updated_at_column now NEW = NEW\<lparr>c_updated_at := now\<rparr>"

definition update_complaints ::
  "timestamptz \<Rightarrow> uuid \<Rightarrow> (complaints_row \<Rightarrow> complaints_row) \<Rightarrow> database \<Rightarrow> error + database"
where
  "update_complaints now cid set_clause db =
     (case find (\<lambda>c. c_id c = cid) (complaints db) of
        None \<Rightarrow> Inr db
      | Some old \<Rightarrow>
          (let new = update_updated_at_column now (set_clause old)
           in if list_ex (\<lambda>c'. c_id c' = c_id new) (filter (\<lambda>c. c_id c \<noteq> cid) (complaints db))
                then Inl unique_violation
              else if \<not> complaints_references new db then Inl foreign_key_violation
              else Inr (db\<lparr>complaints :=
                     map (\<lambda>c. if c_id c = cid then new else c) (complaints db)\<rparr>)))"

text \<open>
  The policies of \<^verbatim>\<open>complaints\<close> (part_000, lines 127 to 149). The update policy
  \<^verbatim>\<open>"Authorities can update complaints"\<close> does not look at the row.
\<close>

definition has_authority_role :: "uuid option \<Rightarrow> database \<Rightarrow> bool" where
  "has_authority_role uid db =
     list_ex (\<lambda>p. Some (p_user_id p) = uid \<and> (p_role p = authority \<or> p_role p = admin))
       (profiles db)"

definition users_can_view_complaints :: "uuid option \<Rightarrow> database \<Rightarrow> complaints_row \<Rightarrow> bool" where
  "users_can_view_complaints uid db c =
     (c_complainant_id c \<in> set (own_profile_ids uid db)
      \<or> (case c_assigned_to c of
            None \<Rightarrow> False
          | Some a \<Rightarrow> a \<in> set (own_profile_ids uid db))
      \<or> has_authority_role uid db)"


definition authorities_can_update_complaints ::
  "uuid option \<Rightarrow> database \<Rightarrow> complaints_row \<Rightarrow> bool"
where
  "authorities_can_update_complaints uid db c = has_authority_role uid db"


text \<open>
  An update that names its row in a \<^verbatim>\<open>WHERE\<close> clause reads the table, so the row must
  pass the \<^verbatim>\<open>SELECT\<close> policy as well as the \<^verbatim>\<open>UPDATE\<close> policy to be seen, and the
  new row (after the \<^verbatim>\<open>BEFORE UPDATE\<close> trigger) must pass both or the statement is an
  error.
\<close>

definition rls_update_complaints ::
  "uuid option \<Rightarrow> timestamptz \<Rightarrow> uuid \<Rightarrow> (complaints_row \<Rightarrow> complaints_row) \<Rightarrow> database
    \<Rightarrow> error + database"
where
  "rls_update_complaints uid now cid set_clause db =
     (case find (\<lambda>c. c_id c = cid) (complaints db) of
        None \<Rightarrow> Inr db
      | Some old \<Rightarrow>
          (let new = update_updated_at_column now (set_clause old)
           in if \<not> (users_can_view_complaints uid db old
                      \<and> authorities_can_update_complaints uid db old)
                then Inr db
              else if \<not> (users_can_view_complaints uid db new
                           \<and> authorities_can_update_complaints uid db new)
                then Inl insufficient_privilege
              else update_complaints now cid set_clause db))"


datatype submit_error =
    profile_not_found
  | invalid_text_representation
  | database_error error

datatype outcome = not_submitted | toast_success | toast_error submit_error



subsection \<open>Migration 000: deleting a vendor\<close>


subsection \<open>The vendor list (fetchVendors of Vendors.tsx)\<close>





subsection \<open>Migration 001: types and tables\<close>

text \<open>
  \<^verbatim>\<open>auth.users\<close> belongs to the identity provider; the model keeps the three columns
  \<^verbatim>\<open>handle_new_user\<close> reads. \<^verbatim>\<open>raw_user_meta_data\<close> is a JSON object or \<^verbatim>\<open>NULL\<close>: a
  list of keys with the text of each value, \<open>None\<close> for the JSON value \<^verbatim>\<open>null\<close>.
\<close>

record users_row =
  u_id :: uuid
  u_raw_user_meta_data :: "(string \<times> string option) list option"
  u_phone :: "string option"

record areas1_row =
  a1_id :: uuid
  a1_name :: string
  a1_district :: string
  a1_state :: string
  a1_created_at :: timestamptz

record profiles1_row =
  p1_id :: uuid
  p1_user_id :: uuid
  p1_full_name :: string
  p1_phone :: "string option"
  p1_area_id :: "uuid option"
  p1_user_type :: string
  p1_created_at :: timestamptz
  p1_updated_at :: timestamptz

record vendors1_row =
  v1_id :: uuid
  v1_profile_id :: uuid
  v1_business_name :: string
  v1_food_type :: string
  v1_location_details :: string
  v1_area_id :: uuid
  v1_license_number :: "string option"
  v1_is_verified :: "bool option"
  v1_created_at :: timestamptz
  v1_updated_at :: timestamptz

record complaints1_row =
  c1_id :: uuid
  c1_complainant_id :: uuid
  c1_vendor_id :: "uuid option"
  c1_area_id :: uuid
  c1_title :: string
  c1_description :: string
  c1_complaint_type :: string
  c1_status :: string
  c1_priority :: string
  c1_created_at :: timestamptz
  c1_updated_at :: timestamptz

record ratings1_row =
  r1_id :: uuid
  r1_reviewer_id :: uuid
  r1_vendor_id :: uuid
  r1_rating :: int
  r1_review_text :: "string option"
  r1_food_quality_rating :: "int option"
  r1_price_rating :: "int option"
  r1_hygiene_rating :: "int option"
  r1_created_at :: timestamptz

record database1 =
  users :: "users_row list"
  areas1 :: "areas1_row list"
  profiles1 :: "profiles1_row list"
  vendors1 :: "vendors1_row list"
  complaints1 :: "complaints1_row list"
  ratings1 :: "ratings1_row list"

subsection \<open>Migration 001: profiles and the trigger on new identities\<close>

definition profiles1_check :: "profiles1_row \<Rightarrow> bool" where
  "profiles1_check p = (p1_user_type p \<in> set [''consumer'', ''vendor'', ''admin''])"

text \<open>\<^verbatim>\<open>id ... PRIMARY KEY\<close> and \<^verbatim>\<open>user_id ... UNIQUE\<close>.\<close>

definition profiles1_unique :: "profiles1_row \<Rightarrow> profiles1_row list \<Rightarrow> bool" where
  "profiles1_unique p ps =
     (\<not> list_ex (\<lambda>p'. p1_id p' = p1_id p) ps \<and> \<not> list_ex (\<lambda>p'. p1_user_id p' = p1_user_id p) ps)"

definition profiles1_references :: "profiles1_row \<Rightarrow> database1 \<Rightarrow> bool" where
  "profiles1_references p db =
     (p1_user_id p \<in> set (map u_id (users db))
      \<and> references_opt (p1_area_id p) (map a1_id (areas1 db)))"

definition insert_into_profiles1 :: "profiles1_row \<Rightarrow> database1 \<Rightarrow> error + database1" where
  "insert_into_profiles1 p db =
     (if \<not> profiles1_check p then Inl check_violation
      else if \<not> profiles1_unique p (profiles1 db) then Inl unique_violation
      else if \<not> profiles1_references p db then Inl foreign_key_violation
      else Inr (db\<lparr>profiles1 := profiles1 db @ [p]\<rparr>))"

text \<open>The operator \<^verbatim>\<open>->>\<close> on a JSON object: the text of a field, or \<^verbatim>\<open>NULL\<close>.\<close>

definition jsonb_object_field_text ::
  "(string \<times> string option) list option \<Rightarrow> string \<Rightarrow> string option"
where
  "jsonb_object_field_text j k =
     (case j of
        None \<Rightarrow> None
      | Some obj \<Rightarrow> (case map_of obj k of None \<Rightarrow> None | Some v \<Rightarrow> v))"

text \<open>
  \<^verbatim>\<open>handle_new_user\<close> (part_001, lines 184 to 195) inserts into
  \<^verbatim>\<open>profiles (user_id, full_name, phone)\<close>; \<^verbatim>\<open>id\<close>, \<^verbatim>\<open>area_id\<close>, \<^verbatim>\<open>user_type\<close>
  and the two timestamps take their defaults. The function is \<^verbatim>\<open>SECURITY DEFINER\<close>,
  so the insert runs as the owner of the table and no policy applies. Its body has
  no \<^verbatim>\<open>EXCEPTION\<close> block: an error of the insert is the function's error.
\<close>

definition new_profile :: "timestamptz \<Rightarrow> uuid \<Rightarrow> users_row \<Rightarrow> profiles1_row" where
  "new_profile now gen_random_uuid NEW =
     \<lparr>p1_id = gen_random_uuid,
      p1_user_id = u_id NEW,
      p1_full_name =
        (case COALESCE (jsonb_object_field_text (u_raw_user_meta_data NEW) ''full_name'')
                (Some ''User'') of
           Some n \<Rightarrow> n
         | None \<Rightarrow> ''User''),
      p1_phone = u_phone NEW,
      p1_area_id = None,
      p1_user_type = ''consumer'',
      p1_created_at = now,
      p1_updated_at = now\<rparr>"

definition handle_new_user ::
  "timestamptz \<Rightarrow> uuid \<Rightarrow> users_row \<Rightarrow> database1 \<Rightarrow> error + database1"
where
  "handle_new_user now gen_random_uuid NEW db =
     insert_into_profiles1 (new_profile now gen_random_uuid NEW) db"

text \<open>
  Creating an identity: the insert into \<^verbatim>\<open>auth.users\<close>, whose primary key is
  \<^verbatim>\<open>id\<close>, and then \<^verbatim>\<open>on_auth_user_created\<close>
  (\<^verbatim>\<open>AFTER INSERT ON auth.users FOR EACH ROW\<close>) in the same statement.
\<close>

definition insert_into_users ::
  "timestamptz \<Rightarrow> uuid \<Rightarrow> users_row \<Rightarrow> database1 \<Rightarrow> error + database1"
where
  "insert_into_users now gen_random_uuid NEW db =
     (if list_ex (\<lambda>u. u_id u = u_id NEW) (users db) then Inl unique_violation
      else handle_new_user now gen_random_uuid NEW (db\<lparr>users := users db @ [NEW]\<rparr>))"

subsection \<open>Migration 001: complaints\<close>

definition own_profile1_ids :: "uuid option \<Rightarrow> database1 \<Rightarrow> uuid list" where
  "own_profile1_ids uid db =
     map p1_id (filter (\<lambda>p. Some (p1_user_id p) = uid) (profiles1 db))"

definition complaints1_check :: "complaints1_row \<Rightarrow> bool" where
  "complaints1_check c =
     (c1_complaint_type c
         \<in> set [''quality'', ''pricing'', ''hygiene'', ''behavior'', ''location'', ''other'']
      \<and> c1_status c \<in> set [''pending'', ''investigating'', ''resolved'', ''rejected'']
      \<and> c1_priority c \<in> set [''low'', ''medium'', ''high'', ''urgent''])"

definition complaints1_references :: "complaints1_row \<Rightarrow> database1 \<Rightarrow> bool" where
  "complaints1_references c db =
     (c1_complainant_id c \<in> set (map p1_id (profiles1 db))
      \<and> references_opt (c1_vendor_id c) (map v1_id (vendors1 db))
      \<and> c1_area_id c \<in> set (map a1_id (areas1 db)))"

text \<open>
  The trigger \<^verbatim>\<open>update_complaints_updated_at\<close> of this migration, the same function
  as in migration 000.
\<close>

definition update_updated_at_column1 :: "timestamptz \<Rightarrow> complaints1_row \<Rightarrow> complaints1_row" where
  "update_updated_at_column1 now NEW = NEW\<lparr>c1_updated_at := now\<rparr>"

definition update_complaints1 ::
  "timestamptz \<Rightarrow> uuid \<Rightarrow> (complaints1_row \<Rightarrow> complaints1_row) \<Rightarrow> database1
    \<Rightarrow> error + database1"
where
  "update_complaints1 now cid set_clause db =
     (case find (\<lambda>c. c1_id c = cid) (complaints1 db) of
        None \<Rightarrow> Inr db
      | Some old \<Rightarrow>
          (let new = update_updated_at_column1 now (set_clause old)
           in if \<not> complaints1_check new then Inl check_violation
              else if list_ex (\<lambda>c'. c1_id c' = c1_id new)
                        (filter (\<lambda>c. c1_id c \<noteq> cid) (complaints1 db))
                then Inl unique_violation
              else if \<not> complaints1_references new db then Inl foreign_key_violation
              else Inr (db\<lparr>complaints1 :=
                     map (\<lambda>c. if c1_id c = cid then new else c) (complaints1 db)\<rparr>)))"

text \<open>
  \<^verbatim>\<open>"Complainants can update their complaints"\<close> (part_001, lines 129 to 135); the
  \<^verbatim>\<open>SELECT\<close> policy of this migration is \<^verbatim>\<open>USING (true)\<close>.
\<close>

definition complainants_can_update_their_complaints ::
  "uuid option \<Rightarrow> database1 \<Rightarrow> complaints1_row \<Rightarrow> bool"
where
  "complainants_can_update_their_complaints uid db c =
     (c1_complainant_id c \<in> set (own_profile1_ids uid db))"

definition rls_update_complaints1 ::
  "uuid option \<Rightarrow> timestamptz \<Rightarrow> uuid \<Rightarrow> (complaints1_row \<Rightarrow> complaints1_row) \<Rightarrow> database1
    \<Rightarrow> error + database1"
where
  "rls_update_complaints1 uid now cid set_clause db =
     (case find (\<lambda>c. c1_id c = cid) (complaints1 db) of
        None \<Rightarrow> Inr db
      | Some old \<Rightarrow>
          if \<not> complainants_can_update_their_complaints uid db old then Inr db
          else if \<not> complainants_can_update_their_complaints uid db
                      (update_updated_at_column1 now (set_clause old))
            then Inl insufficient_privilege
          else update_complaints1 now cid set_clause db)"

subsection \<open>Migration 001: deleting a vendor\<close>



subsection \<open>Migration 001: ratings and the rating form\<close>

definition ratings1_check :: "ratings1_row \<Rightarrow> bool" where
  "ratings1_check r =
     (r1_rating r \<ge> 1 \<and> r1_rating r \<le> 5
      \<and> check_1_5 (r1_food_quality_rating r)
      \<and> check_1_5 (r1_price_rating r)
      \<and> check_1_5 (r1_hygiene_rating r))"

text \<open>\<^verbatim>\<open>id ... PRIMARY KEY\<close> and \<^verbatim>\<open>UNIQUE(reviewer_id, vendor_id)\<close>.\<close>

definition ratings1_unique :: "ratings1_row \<Rightarrow> ratings1_row list \<Rightarrow> bool" where
  "ratings1_unique r rs =
     (\<not> list_ex (\<lambda>r'. r1_id r' = r1_id r) rs
      \<and> \<not> list_ex (\<lambda>r'. r1_reviewer_id r' = r1_reviewer_id r \<and> r1_vendor_id r' = r1_vendor_id r) rs)"

definition ratings1_references :: "ratings1_row \<Rightarrow> database1 \<Rightarrow> bool" where
  "ratings1_references r db =
     (r1_reviewer_id r \<in> set (map p1_id (profiles1 db))
      \<and> r1_vendor_id r \<in> set (map v1_id (vendors1 db)))"

definition insert_into_ratings1 :: "ratings1_row \<Rightarrow> database1 \<Rightarrow> error + database1" where
  "insert_into_ratings1 r db =
     (if \<not> ratings1_check r then Inl check_violation
      else if \<not> ratings1_unique r (ratings1 db) then Inl unique_violation
      else if \<not> ratings1_references r db then Inl foreign_key_violation
      else Inr (db\<lparr>ratings1 := ratings1 db @ [r]\<rparr>))"

definition users_can_create_ratings :: "uuid option \<Rightarrow> database1 \<Rightarrow> ratings1_row \<Rightarrow> bool" where
  "users_can_create_ratings uid db r = (r1_reviewer_id r \<in> set (own_profile1_ids uid db))"

definition rls_insert_into_ratings1 ::
  "uuid option \<Rightarrow> ratings1_row \<Rightarrow> database1 \<Rightarrow> error + database1"
where
  "rls_insert_into_ratings1 uid r db =
     (if \<not> users_can_create_ratings uid db r then Inl insufficient_privilege
      else insert_into_ratings1 r db)"

text \<open>
  The rating form (\<^verbatim>\<open>handleSubmit\<close> of Ratings.tsx, lines 120 to 172). It returns
  at once when nobody is signed in or no star was chosen (\<^verbatim>\<open>formData.rating === 0\<close>),
  looks the caller's profile up, and inserts the form with \<^verbatim>\<open>reviewer_id\<close> set to that
  profile; a sub-rating of 0 is sent as \<^verbatim>\<open>null\<close> (\<^verbatim>\<open>formData.price_rating || null\<close>).
  It is a plain insert: the form neither looks for an earlier rating nor upserts. An
  unselected vendor is the empty string, which PostgreSQL cannot read as a UUID. An
  error of the insert is shown as a toast.
\<close>

record rating_form =
  g_vendor_id :: "uuid option"
  g_rating :: int
  g_review_text :: string
  g_food_quality_rating :: int
  g_price_rating :: int
  g_hygiene_rating :: int

definition or_null :: "int \<Rightarrow> int option" where
  "or_null x = (if x = 0 then None else Some x)"

definition rating_of_form ::
  "uuid \<Rightarrow> timestamptz \<Rightarrow> uuid \<Rightarrow> uuid \<Rightarrow> rating_form \<Rightarrow> ratings1_row"
where
  "rating_of_form gen_random_uuid now profile_id vendor_id formData =
     \<lparr>r1_id = gen_random_uuid, r1_reviewer_id = profile_id, r1_vendor_id = vendor_id,
      r1_rating = g_rating formData, r1_review_text = Some (g_review_text formData),
      r1_food_quality_rating = or_null (g_food_quality_rating formData),
      r1_price_rating = or_null (g_price_rating formData),
      r1_hygiene_rating = or_null (g_hygiene_rating formData),
      r1_created_at = now\<rparr>"

definition Ratings_handleSubmit ::
  "uuid option \<Rightarrow> timestamptz \<Rightarrow> uuid \<Rightarrow> rating_form \<Rightarrow> database1 \<Rightarrow> outcome \<times> database1"
where
  "Ratings_handleSubmit user now gen_random_uuid formData db =
     (case user of
        None \<Rightarrow> (not_submitted, db)
      | Some uid \<Rightarrow>
          if g_rating formData = 0 then (not_submitted, db)
          else
            (case find (\<lambda>p. p1_user_id p = uid) (profiles1 db) of
               None \<Rightarrow> (toast_error profile_not_found, db)
             | Some profile \<Rightarrow>
                 (case g_vendor_id formData of
                    None \<Rightarrow> (toast_error invalid_text_representation, db)
                  | Some vendor_id \<Rightarrow>
                      (case rls_insert_into_ratings1 (Some uid)
                              (rating_of_form gen_random_uuid now (p1_id profile) vendor_id
                                 formData) db of
                         Inl e \<Rightarrow> (toast_error (database_error e), db)
                       | Inr db' \<Rightarrow> (toast_success, db')))))"

subsection \<open>Example rows and databases\<close>

text \<open>
  Migration 000: users 1 and 2 are consumers with profiles 11 and 12, user 3 is a
  vendor (profile 13) with the stalls 21 and 22, user 4 is an authority (profile 14).
  A stall is created with the column defaults \<^verbatim>\<open>average_rating = 0.0\<close> and
  \<^verbatim>\<open>total_ratings = 0\<close>.
\<close>

definition an_area :: areas_row where
  "an_area = \<lparr>a_id = 1, a_name = ''Guntur City'', a_district = ''Guntur'',
     a_state = ''Andhra Pradesh'', a_pincode = Some ''522001'', a_created_at = 0\<rparr>"

definition a_profile :: "uuid \<Rightarrow> uuid \<Rightarrow> user_role \<Rightarrow> profiles_row" where
  "a_profile i u ro = \<lparr>p_id = i, p_user_id = u, p_full_name = ''User'', p_phone = None,
     p_area_id = None, p_role = ro, p_is_verified = Some False, p_created_at = 0,
     p_updated_at = 0\<rparr>"

definition a_vendor :: "uuid \<Rightarrow> rat option \<Rightarrow> int option \<Rightarrow> timestamptz \<Rightarrow> vendors_row" where
  "a_vendor i avg cnt upd = \<lparr>v_id = i, v_profile_id = 13, v_business_name = ''Stall'',
     v_license_number = None, v_area_id = 1, v_location_description = ''Corner'',
     v_food_types = Some [], v_is_licensed = Some False, v_average_rating = avg,
     v_total_ratings = cnt, v_created_at = 0, v_updated_at = upd\<rparr>"

definition a_rating :: "uuid \<Rightarrow> uuid \<Rightarrow> uuid \<Rightarrow> int \<Rightarrow> ratings_row" where
  "a_rating i v c n = \<lparr>r_id = i, r_vendor_id = v, r_customer_id = c, r_rating = n,
     r_review = None, r_food_quality_rating = None, r_price_rating = None,
     r_hygiene_rating = None, r_created_at = 0\<rparr>"

definition a_complaint :: "uuid \<Rightarrow> uuid \<Rightarrow> uuid option \<Rightarrow> complaints_row" where
  "a_complaint i p v = \<lparr>c_id = i, c_complainant_id = p, c_vendor_id = v, c_area_id = 1,
     c_category = hygiene, c_title = ''Dirty water'', c_description = ''Seen on Monday'',
     c_status = pending, c_priority = Some 1, c_assigned_to = None,
     c_resolution_notes = None, c_resolved_at = None, c_created_at = 0, c_updated_at = 0\<rparr>"

definition the_profiles :: "profiles_row list" where
  "the_profiles = [a_profile 11 1 consumer, a_profile 12 2 consumer, a_profile 13 3 vendor,
     a_profile 14 4 authority]"

definition db_unrated :: database where
  "db_unrated = \<lparr>areas = [an_area], profiles = the_profiles,
     vendors = [a_vendor 21 (Some 0) (Some 0) 0, a_vendor 22 (Some 0) (Some 0) 0],
     complaints = [], ratings = []\<rparr>"

text \<open>Stall 21 with the rating 4 of profile 11, and its aggregates recomputed.\<close>

definition db_one_rating :: database where
  "db_one_rating = \<lparr>areas = [an_area], profiles = the_profiles,
     vendors = [a_vendor 21 (Some 4) (Some 1) 5, a_vendor 22 (Some 0) (Some 0) 0],
     complaints = [], ratings = [a_rating 31 21 11 4]\<rparr>"

text \<open>Stall 21 with the ratings 4 of profile 11 and 2 of profile 12, recomputed.\<close>

definition db_two_ratings :: database where
  "db_two_ratings = \<lparr>areas = [an_area], profiles = the_profiles,
     vendors = [a_vendor 21 (Some 3) (Some 2) 6, a_vendor 22 (Some 0) (Some 0) 0],
     complaints = [], ratings = [a_rating 31 21 11 4, a_rating 32 21 12 2]\<rparr>"

text \<open>Profile 11 has filed complaint 41 about stall 21.\<close>

definition db_complaint :: database where
  "db_complaint = \<lparr>areas = [an_area], profiles = the_profiles,
     vendors = [a_vendor 21 (Some 0) (Some 0) 0, a_vendor 22 (Some 0) (Some 0) 0],
     complaints = [a_complaint 41 11 (Some 21)], ratings = []\<rparr>"

text \<open>The \<^verbatim>\<open>SET\<close> clauses of the example statements.\<close>

definition set_vendor_id :: "uuid \<Rightarrow> ratings_row \<Rightarrow> ratings_row" where
  "set_vendor_id v r = r\<lparr>r_vendor_id := v\<rparr>"

definition set_rating :: "int \<Rightarrow> ratings_row \<Rightarrow> ratings_row" where
  "set_rating n r = r\<lparr>r_rating := n\<rparr>"

definition set_title :: "string \<Rightarrow> complaints_row \<Rightarrow> complaints_row" where
  "set_title t c = c\<lparr>c_title := t\<rparr>"

definition set_status :: "complaint_status \<Rightarrow> complaints_row \<Rightarrow> complaints_row" where
  "set_status s c = c\<lparr>c_status := s\<rparr>"

text \<open>
  Migration 001: the same people and stalls; user 4 is an admin. Profile 11 has rated
  stall 21 and filed complaint 41 about it, profile 12 has filed complaint 42 about
  stall 22.
\<close>

definition a_user :: "uuid \<Rightarrow> users_row" where
  "a_user i = \<lparr>u_id = i, u_raw_user_meta_data = Some [(''full_name'', Some ''Asha'')],
     u_phone = Some ''9000000001''\<rparr>"

definition an_area1 :: areas1_row where
  "an_area1 = \<lparr>a1_id = 1, a1_name = ''Guntur City'', a1_district = ''Guntur'',
     a1_state = ''Andhra Pradesh'', a1_created_at = 0\<rparr>"

definition a_profile1 :: "uuid \<Rightarrow> uuid \<Rightarrow> string \<Rightarrow> profiles1_row" where
  "a_profile1 i u t = \<lparr>p1_id = i, p1_user_id = u, p1_full_name = ''Asha'', p1_phone = None,
     p1_area_id = None, p1_user_type = t, p1_created_at = 0, p1_updated_at = 0\<rparr>"

definition a_vendor1 :: "uuid \<Rightarrow> vendors1_row" where
  "a_vendor1 i = \<lparr>v1_id = i, v1_profile_id = 13, v1_business_name = ''Stall'',
     v1_food_type = ''Dosa'', v1_location_details = ''Corner'', v1_area_id = 1,
     v1_license_number = None, v1_is_verified = Some False, v1_created_at = 0,
     v1_updated_at = 0\<rparr>"

definition a_complaint1 :: "uuid \<Rightarrow> uuid \<Rightarrow> uuid option \<Rightarrow> timestamptz \<Rightarrow> complaints1_row" where
  "a_complaint1 i p v upd = \<lparr>c1_id = i, c1_complainant_id = p, c1_vendor_id = v, c1_area_id = 1,
     c1_title = ''Dirty water'', c1_description = ''Seen on Monday'',
     c1_complaint_type = ''hygiene'', c1_status = ''pending'', c1_priority = ''medium'',
     c1_created_at = 0, c1_updated_at = upd\<rparr>"

definition a_rating1 :: "uuid \<Rightarrow> uuid \<Rightarrow> uuid \<Rightarrow> int \<Rightarrow> ratings1_row" where
  "a_rating1 i p v n = \<lparr>r1_id = i, r1_reviewer_id = p, r1_vendor_id = v, r1_rating = n,
     r1_review_text = None, r1_food_quality_rating = None, r1_price_rating = None,
     r1_hygiene_rating = None, r1_created_at = 0\<rparr>"

definition db1 :: database1 where
  "db1 = \<lparr>users = [a_user 1, a_user 2, a_user 3, a_user 4], areas1 = [an_area1],
     profiles1 = [a_profile1 11 1 ''consumer'', a_profile1 12 2 ''consumer'',
                  a_profile1 13 3 ''vendor'', a_profile1 14 4 ''admin''],
     vendors1 = [a_vendor1 21, a_vendor1 22],
     complaints1 = [a_complaint1 41 11 (Some 21) 0, a_complaint1 42 12 (Some 22) 0],
     ratings1 = [a_rating1 31 11 21 4]\<rparr>"

definition a_rating_form :: "uuid \<Rightarrow> int \<Rightarrow> rating_form" where
  "a_rating_form v n = \<lparr>g_vendor_id = Some v, g_rating = n, g_review_text = ''Tasty'',
     g_food_quality_rating = 0, g_price_rating = 4, g_hygiene_rating = 0\<rparr>"

definition set_title1 :: "string \<Rightarrow> complaints1_row \<Rightarrow> complaints1_row" where
  "set_title1 t c = c\<lparr>c1_title := t\<rparr>"

definition set_complainant_id1 :: "uuid \<Rightarrow> complaints1_row \<Rightarrow> complaints1_row" where
  "set_complainant_id1 p c = c\<lparr>c1_complainant_id := p\<rparr>"





text \<open>
  What the specification asks of the two stored columns of a vendor: the number of
  its ratings, and the arithmetic mean of their \<^verbatim>\<open>rating\<close> rounded to one decimal, 0.0
  when there are none. \<open>stored_aggregates\<close> reads the two columns of the vendor row.
\<close>

definition spec_average_rating :: "int list \<Rightarrow> rat" where
  "spec_average_rating xs =
     (if xs = [] then 0 else ROUND (of_int (sum_list xs) / of_int (int (length xs))) 1)"

definition spec_aggregates :: "uuid \<Rightarrow> database \<Rightarrow> int option \<times> rat option" where
  "spec_aggregates vid db =
     (Some (COUNT (ratings_of vid db)),
      Some (spec_average_rating (map r_rating (ratings_of vid db))))"

definition stored_aggregates :: "uuid \<Rightarrow> database \<Rightarrow> (int option \<times> rat option) list" where
  "stored_aggregates vid db =
     map (\<lambda>v. (v_total_ratings v, v_average_rating v)) (filter (\<lambda>v. v_id v = vid) (vendors db))"



text \<open>The databases the example statements lead to.\<close>

definition db_one_rating_unseen :: database where
  "db_one_rating_unseen = \<lparr>areas = [an_area], profiles = the_profiles,
     vendors = [a_vendor 21 (Some 0) (Some 0) 0, a_vendor 22 (Some 0) (Some 0) 0],
     complaints = [], ratings = [a_rating 31 21 11 4]\<rparr>"

definition db_two_ratings_edited :: database where
  "db_two_ratings_edited = \<lparr>areas = [an_area], profiles = the_profiles,
     vendors = [a_vendor 21 (Some (7 / 2)) (Some 2) 7, a_vendor 22 (Some 0) (Some 0) 0],
     complaints = [], ratings = [a_rating 31 21 11 5, a_rating 32 21 12 2]\<rparr>"

definition db_two_ratings_one_left :: database where
  "db_two_ratings_one_left = \<lparr>areas = [an_area], profiles = the_profiles,
     vendors = [a_vendor 21 (Some 5) (Some 1) 8, a_vendor 22 (Some 0) (Some 0) 0],
     complaints = [], ratings = [a_rating 31 21 11 5]\<rparr>"

definition db_two_retargeted :: database where
  "db_two_retargeted = \<lparr>areas = [an_area], profiles = the_profiles,
     vendors = [a_vendor 21 (Some 3) (Some 2) 6, a_vendor 22 (Some 2) (Some 1) 7],
     complaints = [], ratings = [a_rating 31 21 11 4, a_rating 32 22 12 2]\<rparr>"

definition db_one_retargeted :: database where
  "db_one_retargeted = \<lparr>areas = [an_area], profiles = the_profiles,
     vendors = [a_vendor 21 (Some 4) (Some 1) 5, a_vendor 22 (Some 4) (Some 1) 7],
     complaints = [], ratings = [a_rating 31 22 11 4]\<rparr>"

definition db_one_retargeted_unseen :: database where
  "db_one_retargeted_unseen = \<lparr>areas = [an_area], profiles = the_profiles,
     vendors = [a_vendor 21 (Some 4) (Some 1) 5, a_vendor 22 (Some 0) (Some 0) 0],
     complaints = [], ratings = [a_rating 31 22 11 4]\<rparr>"

definition db_one_deleted :: database where
  "db_one_deleted = \<lparr>areas = [an_area], profiles = the_profiles,
     vendors = [a_vendor 21 None (Some 0) 7, a_vendor 22 (Some 0) (Some 0) 0],
     complaints = [], ratings = []\<rparr>"

definition db_one_reinserted :: database where
  "db_one_reinserted = \<lparr>areas = [an_area], profiles = the_profiles,
     vendors = [a_vendor 21 None (Some 0) 7, a_vendor 22 (Some 4) (Some 1) 7],
     complaints = [], ratings = [a_rating 31 22 11 4]\<rparr>"

section \<open>Properties\<close>

subsection \<open>Ratings between 1 and 5 always fit the average column\<close>

text \<open>
  While every row of \<^verbatim>\<open>ratings\<close> satisfies its \<^verbatim>\<open>CHECK\<close> constraints, the mean of a
  vendor's ratings lies between 1 and 5, so the rounded mean fits \<^verbatim>\<open>DECIMAL(2,1)\<close> and
  the trigger function cannot fail.
\<close>

lemma sum_list_bounds:
  fixes xs :: "int list"
  assumes "list_all (\<lambda>x. 1 \<le> x \<and> x \<le> 5) xs"
  shows "int (length xs) \<le> sum_list xs \<and> sum_list xs \<le> 5 * int (length xs)"
  using assms by (induction xs) auto

lemma mean_bounds:
  fixes xs :: "int list"
  assumes "list_all (\<lambda>x. 1 \<le> x \<and> x \<le> 5) xs" and "xs \<noteq> []"
  shows "1 \<le> (of_int (sum_list xs) :: rat) / of_int (int (length xs))
         \<and> (of_int (sum_list xs) :: rat) / of_int (int (length xs)) \<le> 5"
proof -
  let ?n = "int (length xs)"
  have n: "0 < ?n" using assms(2) by simp
  have b: "?n \<le> sum_list xs \<and> sum_list xs \<le> 5 * ?n"
    by (rule sum_list_bounds [OF assms(1)])
  have lo: "1 \<le> (of_int (sum_list xs) :: rat) / of_int ?n"
    using n b by (simp add: le_divide_eq)
  have "(of_int (sum_list xs) :: rat) \<le> of_int (5 * ?n)"
    using b by (simp only: of_int_le_iff)
  then have hi: "(of_int (sum_list xs) :: rat) / of_int ?n \<le> 5"
    using n by (simp add: divide_le_eq)
  show ?thesis using lo hi by simp
qed

lemma ROUND_bounds:
  assumes "1 \<le> q" and "q \<le> 5"
  shows "1 \<le> ROUND q 1 \<and> ROUND q 1 \<le> 5"
proof -
  have s: "sgn q = 1" "\<bar>q\<bar> = q" using assms by auto
  have "\<lfloor>q * 10 + 1 / 2\<rfloor> \<le> \<lfloor>(5::rat) * 10 + 1 / 2\<rfloor>"
    using assms by (intro floor_mono) simp
  also have "\<lfloor>(5::rat) * 10 + 1 / 2\<rfloor> = 50" by (simp add: floor_eq_iff)
  finally have hi: "\<lfloor>q * 10 + 1 / 2\<rfloor> \<le> 50" .
  have "\<lfloor>(1::rat) * 10 + 1 / 2\<rfloor> \<le> \<lfloor>q * 10 + 1 / 2\<rfloor>"
    using assms by (intro floor_mono) simp
  moreover have "\<lfloor>(1::rat) * 10 + 1 / 2\<rfloor> = 10" by (simp add: floor_eq_iff)
  ultimately have lo: "10 \<le> \<lfloor>q * 10 + 1 / 2\<rfloor>" by simp
  have "(of_int \<lfloor>q * 10 + 1 / 2\<rfloor> :: rat) \<le> of_int 50"
    using hi by (simp only: of_int_le_iff)
  moreover have "(of_int 10 :: rat) \<le> of_int \<lfloor>q * 10 + 1 / 2\<rfloor>"
    using lo by (simp only: of_int_le_iff)
  ultimately show ?thesis by (simp add: ROUND_def s)
qed

lemma checked_ratings_in_range:
  assumes "list_all ratings_check rs"
  shows "list_all (\<lambda>x. 1 \<le> x \<and> x \<le> 5) (map r_rating (filter P rs))"
  using assms by (induction rs) (auto simp: ratings_check_def)

lemma checked_average_fits:
  assumes "list_all ratings_check (ratings db)"
  shows "fits_decimal_2_1 (map_option (\<lambda>q. ROUND q 1) (AVG (map r_rating (ratings_of vid db))))"
proof (cases "ratings_of vid db = []")
  case True
  then show ?thesis by (simp add: AVG_def fits_decimal_2_1_def)
next
  case False
  let ?xs = "map r_rating (ratings_of vid db)"
  have r: "list_all (\<lambda>x. 1 \<le> x \<and> x \<le> 5) ?xs"
    unfolding ratings_of_def by (rule checked_ratings_in_range [OF assms])
  have ne: "?xs \<noteq> []" using False by simp
  have "1 \<le> ROUND (of_int (sum_list ?xs) / of_int (int (length ?xs))) 1
        \<and> ROUND (of_int (sum_list ?xs) / of_int (int (length ?xs))) 1 \<le> 5"
    using mean_bounds [OF r ne] by (intro ROUND_bounds) auto
  then have "\<bar>ROUND (ROUND (of_int (sum_list ?xs) / of_int (int (length ?xs))) 1) 1\<bar> < 10"
    using ROUND_bounds [of "ROUND (of_int (sum_list ?xs) / of_int (int (length ?xs))) 1"] by auto
  then show ?thesis using ne by (simp add: AVG_def fits_decimal_2_1_def)
qed

lemma update_vendor_rating_checked:
  assumes "list_all ratings_check (ratings db)"
  shows "update_vendor_rating s now NEW OLD db =
     Inr (case COALESCE (map_option r_vendor_id NEW) (map_option r_vendor_id OLD) of
            None \<Rightarrow> db | Some vid \<Rightarrow> recomputed s now vid db)"
  using checked_average_fits [OF assms]
  by (simp add: update_vendor_rating_def recomputed_def Let_def split: option.splits)

lemma insert_into_ratings_accepts:
  assumes "ratings_check r" and "ratings_unique r (ratings db)" and "ratings_references r db"
      and "list_all ratings_check (ratings db)"
  shows "insert_into_ratings s now r db =
           Inr (recomputed s now (r_vendor_id r) (db\<lparr>ratings := ratings db @ [r]\<rparr>))"
proof -
  have "list_all ratings_check (ratings (db\<lparr>ratings := ratings db @ [r]\<rparr>))"
    using assms(1,4) by simp
  from update_vendor_rating_checked [OF this, of s now "Some r" None]
  show ?thesis using assms(1-3) by (simp add: insert_into_ratings_def)
qed

subsection \<open>The aggregate columns of a vendor\<close>

text \<open>
  What the trigger does achieve. Where its update of \<^verbatim>\<open>vendors\<close> sees the vendor row
  (the session bypasses row-level security, or the caller owns the vendor), an accepted
  insert leaves the rated vendor with the number of its ratings and their rounded mean.
\<close>

lemma rounded_average_is_spec_average:
  "map_option (\<lambda>q. ROUND q 1) (AVG xs) = (if xs = [] then None else Some (spec_average_rating xs))"
  by (simp add: AVG_def spec_average_rating_def)

lemma recomputed_vendor:
  assumes "v \<in> set (vendors (recomputed s now vid db))"
      and "v_id v = vid" and "may_update_vendor s db v"
  shows "v_total_ratings v = Some (COUNT (ratings_of vid db))
         \<and> v_average_rating v
             = (if ratings_of vid db = [] then None
                else Some (spec_average_rating (map r_rating (ratings_of vid db))))"
proof -
  let ?f = "\<lambda>v. if v_id v = vid \<and> may_update_vendor s db v
                    then v\<lparr>v_average_rating :=
                             map_option (\<lambda>q. ROUND q 1) (AVG (map r_rating (ratings_of vid db))),
                           v_total_ratings := Some (COUNT (ratings_of vid db)),
                           v_updated_at := now\<rparr>
                    else v"
  from assms(1) obtain v0 where v0: "v0 \<in> set (vendors db)" "v = ?f v0"
    by (auto simp: recomputed_def)
  have same: "may_update_vendor s db (?f v0) = may_update_vendor s db v0"
    by (simp add: may_update_vendor_def vendors_can_update_their_own_data_def split: session.splits)
  have "v_id (?f v0) = v_id v0" by simp
  then have "v_id v0 = vid \<and> may_update_vendor s db v0"
    using assms(2,3) v0(2) same by metis
  then show ?thesis
    using v0(2) by (simp add: rounded_average_is_spec_average del: One_nat_def)
qed

lemma recomputed_keeps_other_vendors:
  assumes "v \<in> set (vendors db)" and "v_id v \<noteq> vid \<or> \<not> may_update_vendor s db v"
  shows "v \<in> set (vendors (recomputed s now vid db))"
  using assms by (force simp: recomputed_def)

lemma recomputed_ratings:
  "ratings (recomputed s now vid db) = ratings db"
  by (simp add: recomputed_def)

lemma ratings_of_recomputed:
  "ratings_of i (recomputed s now vid db) = ratings_of i db"
  by (simp add: ratings_of_def recomputed_def)

lemma insert_recomputes_rated_vendor:
  assumes ok: "insert_into_ratings s now r db = Inr db'"
      and inv: "list_all ratings_check (ratings db)"
      and v: "v \<in> set (vendors db')" "v_id v = r_vendor_id r" "may_update_vendor s db v"
  shows "(v_total_ratings v, v_average_rating v) = spec_aggregates (r_vendor_id r) db'"
proof -
  let ?d = "db\<lparr>ratings := ratings db @ [r]\<rparr>"
  have c: "ratings_check r" "ratings_unique r (ratings db)" "ratings_references r db"
    using ok by (auto simp: insert_into_ratings_def split: if_splits)
  have eq: "db' = recomputed s now (r_vendor_id r) ?d"
    using insert_into_ratings_accepts [OF c inv, of s now] ok by simp
  have m: "may_update_vendor s ?d v"
    using v(3)
    by (simp add: may_update_vendor_def vendors_can_update_their_own_data_def split: session.splits)
  have ne: "ratings_of (r_vendor_id r) ?d \<noteq> []"
    by (simp add: ratings_of_def)
  from recomputed_vendor [of v s now "r_vendor_id r" ?d] v eq m ne
  show ?thesis
    by (simp add: spec_aggregates_def ratings_of_recomputed)
qed

lemma update_vendor_rating_Inr:
  assumes "update_vendor_rating s now NEW OLD db = Inr db'"
      and "COALESCE (map_option r_vendor_id NEW) (map_option r_vendor_id OLD) = Some vid"
  shows "db' = recomputed s now vid db"
  using assms
  by (auto simp add: update_vendor_rating_def recomputed_def Let_def simp del: One_nat_def
      split: if_splits)

lemma recomputed_unseen:
  assumes "\<not> list_ex (\<lambda>v. v_id v = vid \<and> may_update_vendor s db v) (vendors db)"
  shows "recomputed s now vid db = db"
proof -
  have "map (\<lambda>v. if v_id v = vid \<and> may_update_vendor s db v
                    then v\<lparr>v_average_rating :=
                             map_option (\<lambda>q. ROUND q 1) (AVG (map r_rating (ratings_of vid db))),
                           v_total_ratings := Some (COUNT (ratings_of vid db)),
                           v_updated_at := now\<rparr>
                    else v) (vendors db) = vendors db"
    using assms by (intro map_idI) (auto simp: list_ex_iff)
  then show ?thesis by (simp add: recomputed_def)
qed

text \<open>
  What it does not achieve, in general. An insert that a caller of the API makes for a
  vendor that is not theirs is accepted and changes no vendor row.
\<close>

lemma insert_by_non_owner_keeps_vendors:
  assumes "rls_insert_into_ratings uid now r db = Inr db'"
      and "\<not> list_ex (\<lambda>v. v_id v = r_vendor_id r \<and> vendors_can_update_their_own_data uid db v)
               (vendors db)"
  shows "vendors db' = vendors db \<and> ratings db' = ratings db @ [r]"
proof -
  let ?d = "db\<lparr>ratings := ratings db @ [r]\<rparr>"
  have t: "update_vendor_rating (api uid) now (Some r) None ?d = Inr db'"
    using assms(1)
    by (simp add: rls_insert_into_ratings_def insert_into_ratings_def split: if_splits)
  have "db' = recomputed (api uid) now (r_vendor_id r) ?d"
    by (rule update_vendor_rating_Inr [OF t]) simp
  moreover have "\<not> list_ex (\<lambda>v. v_id v = r_vendor_id r \<and> may_update_vendor (api uid) ?d v)
                     (vendors ?d)"
    using assms(2) by (simp add: may_update_vendor_def vendors_can_update_their_own_data_def)
  ultimately have "db' = ?d"
    using recomputed_unseen [of "r_vendor_id r" "api uid" ?d now] by simp
  then show ?thesis by simp
qed

text \<open>
  An update never changes a vendor other than the one the new row names, in any
  session: the vendor the rating is moved away from is left as it was.
\<close>

lemma update_keeps_vendors_other_than_new:
  assumes "update_ratings s now rid f db = Inr db'"
      and "find (\<lambda>r. r_id r = rid) (ratings db) = Some old"
      and "v \<in> set (vendors db)" and "v_id v \<noteq> r_vendor_id (f old)"
  shows "v \<in> set (vendors db')"
proof -
  let ?d = "db\<lparr>ratings := map (\<lambda>r. if r_id r = rid then f old else r) (ratings db)\<rparr>"
  have t: "update_vendor_rating s now (Some (f old)) (Some old) ?d = Inr db'"
    using assms(1,2) by (simp add: update_ratings_def Let_def split: if_splits)
  have "db' = recomputed s now (r_vendor_id (f old)) ?d"
    by (rule update_vendor_rating_Inr [OF t]) simp
  then show ?thesis
    using assms(3,4) recomputed_keeps_other_vendors [of v ?d "r_vendor_id (f old)" s now]
    by simp
qed

text \<open>
  A delete that leaves the vendor without ratings, in a session that sees the vendor
  row, stores the count 0 and the average \<^verbatim>\<open>NULL\<close>.
\<close>

lemma delete_of_last_rating_stores_null:
  assumes "delete_from_ratings s now rid db = Inr db'"
      and "find (\<lambda>r. r_id r = rid) (ratings db) = Some old"
      and "ratings_of (r_vendor_id old) db' = []"
      and "v \<in> set (vendors db')" and "v_id v = r_vendor_id old" and "may_update_vendor s db v"
  shows "v_total_ratings v = Some 0 \<and> v_average_rating v = None"
proof -
  let ?d = "db\<lparr>ratings := filter (\<lambda>r. r_id r \<noteq> rid) (ratings db)\<rparr>"
  have t: "update_vendor_rating s now None (Some old) ?d = Inr db'"
    using assms(1,2) by (simp add: delete_from_ratings_def)
  have eq: "db' = recomputed s now (r_vendor_id old) ?d"
    by (rule update_vendor_rating_Inr [OF t]) simp
  have m: "may_update_vendor s ?d v"
    using assms(6)
    by (simp add: may_update_vendor_def vendors_can_update_their_own_data_def split: session.splits)
  have e: "ratings_of (r_vendor_id old) ?d = []"
    using assms(3) eq by (simp add: ratings_of_recomputed)
  from recomputed_vendor [of v s now "r_vendor_id old" ?d] assms(4,5) eq m e
  show ?thesis by (simp add: COUNT_def)
qed

text \<open>
  In a session that bypasses row-level security the example of the specification runs
  as written there: a rating of 4 gives one rating of average 4.0, a second rating of 2
  gives two of average 3.0, changing the first to 5 gives average 3.5, and deleting the
  second leaves one rating of average 5.0.
\<close>

lemma spec_example_when_policies_are_bypassed:
  "insert_into_ratings bypass_rls 5 (a_rating 31 21 11 4) db_unrated = Inr db_one_rating
   \<and> stored_aggregates 21 db_one_rating = [(Some 1, Some 4)]
   \<and> insert_into_ratings bypass_rls 6 (a_rating 32 21 12 2) db_one_rating = Inr db_two_ratings
   \<and> stored_aggregates 21 db_two_ratings = [(Some 2, Some 3)]
   \<and> update_ratings bypass_rls 7 31 (set_rating 5) db_two_ratings = Inr db_two_ratings_edited
   \<and> stored_aggregates 21 db_two_ratings_edited = [(Some 2, Some (7 / 2))]
   \<and> delete_from_ratings bypass_rls 8 32 db_two_ratings_edited = Inr db_two_ratings_one_left
   \<and> stored_aggregates 21 db_two_ratings_one_left = [(Some 1, Some 5)]"
  by code_simp

text \<open>
  C1 (every insert, update or delete of a rating of vendor V leaves V's
  \<^verbatim>\<open>total_ratings\<close> equal to the number of V's ratings and \<^verbatim>\<open>average_rating\<close> equal to
  their mean rounded to one decimal). The code does not do this for the callers of the
  API. User 1, a consumer, rates stall 21 with 4. The insert is accepted. The trigger
  function runs as user 1, who does not own stall 21, so its update of \<^verbatim>\<open>vendors\<close>
  sees no row: stall 21 still says no rating and average 0.0, and has one rating, of 4.
  Nor does it hold where row-level security is bypassed: when the second of the two
  ratings of stall 21 is moved to stall 22, stall 21 still says two ratings of average
  3.0 and has one rating, of 4.
\<close>

theorem rating_by_consumer_leaves_aggregates_unchanged:
  "rls_insert_into_ratings (Some 1) 5 (a_rating 31 21 11 4) db_unrated
     = Inr db_one_rating_unseen
   \<and> ratings db_one_rating_unseen = [a_rating 31 21 11 4]
   \<and> stored_aggregates 21 db_one_rating_unseen = [(Some 0, Some 0)]
   \<and> spec_aggregates 21 db_one_rating_unseen = (Some 1, Some 4)
   \<and> update_ratings bypass_rls 7 32 (set_vendor_id 22) db_two_ratings = Inr db_two_retargeted
   \<and> stored_aggregates 21 db_two_retargeted = [(Some 2, Some 3)]
   \<and> spec_aggregates 21 db_two_retargeted = (Some 1, Some 4)"
  by code_simp

text \<open>
  C2 (an update that moves a rating from one vendor to another recomputes both
  vendors, as a delete followed by an insert would). The code recomputes at most the
  new vendor. Stall 21 has one rating, which is moved to stall 22 in a session that
  bypasses row-level security, so that the trigger's update is not filtered. The
  trigger recomputes \<open>COALESCE(NEW.vendor_id, OLD.vendor_id)\<close>, which is stall 22:
  stall 21 keeps one rating of average 4.0 and has none. Deleting the rating and
  inserting it for stall 22 ends in another database, where stall 21 counts no rating.
  When the author of the rating, who owns neither stall, sends the update through the
  API, the trigger's update sees no vendor row and neither stall is recomputed.
\<close>

theorem retarget_is_not_delete_then_insert:
  "update_ratings bypass_rls 7 31 (set_vendor_id 22) db_one_rating = Inr db_one_retargeted
   \<and> stored_aggregates 22 db_one_retargeted = [(Some 1, Some 4)]
   \<and> stored_aggregates 21 db_one_retargeted = [(Some 1, Some 4)]
   \<and> ratings_of 21 db_one_retargeted = []
   \<and> delete_from_ratings bypass_rls 7 31 db_one_rating = Inr db_one_deleted
   \<and> insert_into_ratings bypass_rls 7 (a_rating 31 22 11 4) db_one_deleted
       = Inr db_one_reinserted
   \<and> stored_aggregates 21 db_one_reinserted = [(Some 0, None)]
   \<and> rls_update_ratings (Some 1) 7 31 (set_vendor_id 22) db_one_rating
       = Inr db_one_retargeted_unseen
   \<and> stored_aggregates 21 db_one_retargeted_unseen = [(Some 1, Some 4)]
   \<and> stored_aggregates 22 db_one_retargeted_unseen = [(Some 0, Some 0)]"
  by code_simp

text \<open>
  C3 (when a vendor is left with no rating, \<^verbatim>\<open>average_rating\<close> becomes 0.0, not null,
  and \<^verbatim>\<open>total_ratings\<close> 0). The code stores \<^verbatim>\<open>NULL\<close>: \<open>AVG\<close> of no rows is \<^verbatim>\<open>NULL\<close>
  and the trigger has no fallback, while the column default and the vendor list both
  use 0 for a vendor without ratings. The only rating of stall 21 is deleted, in a
  session that bypasses row-level security (no API caller can delete a rating):
\<close>

theorem last_rating_deleted_average_is_null:
  "delete_from_ratings bypass_rls 7 31 db_one_rating = Inr db_one_deleted
   \<and> ratings_of 21 db_one_deleted = []
   \<and> stored_aggregates 21 db_one_deleted = [(Some 0, None)]
   \<and> spec_aggregates 21 db_one_deleted = (Some 0, Some 0)
   \<and> stored_aggregates 21 db_unrated = [(Some 0, Some 0)]
   \<and> rls_delete_from_ratings (Some 1) 7 31 db_one_rating = Inr db_one_rating"
  by code_simp

subsection \<open>Constraints of the ratings table\<close>

lemma own_profile_exists:
  assumes "users_can_rate_vendors uid db r"
  shows "list_ex (\<lambda>p. p_id p = r_customer_id r) (profiles db)"
  using assms
  by (auto simp: users_can_rate_vendors_def own_profile_ids_def list_ex_iff)

text \<open>
  C7 (range of the ratings). An insert whose \<^verbatim>\<open>rating\<close> is below 1 or above 5, or one of
  whose sub-ratings is present and below 1 or above 5, fails the table's \<^verbatim>\<open>CHECK\<close>
  constraints with \<open>check_violation\<close>, the specification's ValidationError. That is the
  error of the statement in every session that the insert policy lets through, so of a
  caller inserting for a profile of their own; for any other caller of the API the
  insert is rejected as well (by the insert policy, which is looked at first). A rating
  from 1 to 5 with absent or in-range sub-ratings is inserted when the caller inserts
  for a profile of their own, the vendor exists and the profile has not rated that
  vendor before; the rows in the table all satisfy their \<^verbatim>\<open>CHECK\<close> constraints, since
  they were inserted through them.
\<close>

theorem rating_range_enforced:
  "(r_rating r < 1 \<or> 5 < r_rating r
      \<or> (\<exists>x. r_food_quality_rating r = Some x \<and> (x < 1 \<or> 5 < x))
      \<or> (\<exists>x. r_price_rating r = Some x \<and> (x < 1 \<or> 5 < x))
      \<or> (\<exists>x. r_hygiene_rating r = Some x \<and> (x < 1 \<or> 5 < x))
    \<longrightarrow> insert_into_ratings s now r db = Inl check_violation
        \<and> (\<exists>e. rls_insert_into_ratings uid now r db = Inl e)
        \<and> (users_can_rate_vendors uid db r
             \<longrightarrow> rls_insert_into_ratings uid now r db = Inl check_violation))
   \<and> (1 \<le> r_rating r \<and> r_rating r \<le> 5
       \<and> check_1_5 (r_food_quality_rating r) \<and> check_1_5 (r_price_rating r)
       \<and> check_1_5 (r_hygiene_rating r)
       \<and> users_can_rate_vendors uid db r
       \<and> ratings_unique r (ratings db)
       \<and> list_ex (\<lambda>v. v_id v = r_vendor_id r) (vendors db)
       \<and> list_all ratings_check (ratings db)
    \<longrightarrow> (\<exists>db'. rls_insert_into_ratings uid now r db = Inr db'
               \<and> ratings db' = ratings db @ [r]))"
proof (intro conjI impI)
  assume bad: "r_rating r < 1 \<or> 5 < r_rating r
      \<or> (\<exists>x. r_food_quality_rating r = Some x \<and> (x < 1 \<or> 5 < x))
      \<or> (\<exists>x. r_price_rating r = Some x \<and> (x < 1 \<or> 5 < x))
      \<or> (\<exists>x. r_hygiene_rating r = Some x \<and> (x < 1 \<or> 5 < x))"
  then have n: "\<not> ratings_check r"
    by (auto simp: ratings_check_def)
  then show "insert_into_ratings s now r db = Inl check_violation"
    by (simp add: insert_into_ratings_def)
  have raw: "insert_into_ratings (api uid) now r db = Inl check_violation"
    using n by (simp add: insert_into_ratings_def)
  show "\<exists>e. rls_insert_into_ratings uid now r db = Inl e"
    using raw by (simp add: rls_insert_into_ratings_def)
  show "rls_insert_into_ratings uid now r db = Inl check_violation"
    if "users_can_rate_vendors uid db r"
    using raw that by (simp add: rls_insert_into_ratings_def)
next
  assume ok: "1 \<le> r_rating r \<and> r_rating r \<le> 5
       \<and> check_1_5 (r_food_quality_rating r) \<and> check_1_5 (r_price_rating r)
       \<and> check_1_5 (r_hygiene_rating r)
       \<and> users_can_rate_vendors uid db r
       \<and> ratings_unique r (ratings db)
       \<and> list_ex (\<lambda>v. v_id v = r_vendor_id r) (vendors db)
       \<and> list_all ratings_check (ratings db)"
  then have c: "ratings_check r" by (simp add: ratings_check_def)
  have refs: "ratings_references r db"
    using ok own_profile_exists [of uid db r] by (simp add: ratings_references_def)
  have "insert_into_ratings (api uid) now r db =
           Inr (recomputed (api uid) now (r_vendor_id r) (db\<lparr>ratings := ratings db @ [r]\<rparr>))"
    using c ok refs by (intro insert_into_ratings_accepts) simp_all
  then show "\<exists>db'. rls_insert_into_ratings uid now r db = Inr db' \<and> ratings db' = ratings db @ [r]"
    using ok by (simp add: rls_insert_into_ratings_def recomputed_def)
qed

theorem rating_range_enforced_witness:
  "insert_into_ratings bypass_rls 5 (a_rating 31 21 11 0) db_unrated = Inl check_violation
   \<and> rls_insert_into_ratings (Some 1) 5 (a_rating 31 21 11 0) db_unrated = Inl check_violation
   \<and> rls_insert_into_ratings (Some 1) 5 (a_rating 31 21 11 6) db_unrated = Inl check_violation
   \<and> (\<exists>db'. rls_insert_into_ratings (Some 1) 5 (a_rating 31 21 11 1) db_unrated = Inr db'
          \<and> ratings db' = ratings db_unrated @ [a_rating 31 21 11 1])
   \<and> (\<exists>db'. rls_insert_into_ratings (Some 1) 5 (a_rating 31 21 11 5) db_unrated = Inr db'
          \<and> ratings db' = ratings db_unrated @ [a_rating 31 21 11 5])"
proof -
  have own: "users_can_rate_vendors (Some 1) db_unrated (a_rating 31 21 11 n)" for n
    by (simp add: users_can_rate_vendors_def own_profile_ids_def db_unrated_def the_profiles_def
        a_profile_def a_rating_def)
  have rest: "ratings_unique (a_rating 31 21 11 n) (ratings db_unrated)
      \<and> list_ex (\<lambda>v. v_id v = r_vendor_id (a_rating 31 21 11 n)) (vendors db_unrated)
      \<and> list_all ratings_check (ratings db_unrated)" for n
    by (simp add: ratings_unique_def db_unrated_def a_rating_def a_vendor_def)
  have sub: "check_1_5 (r_food_quality_rating (a_rating 31 21 11 n))
      \<and> check_1_5 (r_price_rating (a_rating 31 21 11 n))
      \<and> check_1_5 (r_hygiene_rating (a_rating 31 21 11 n))" for n
    by (simp add: a_rating_def)
  have val: "r_rating (a_rating 31 21 11 n) = n" for n
    by (simp add: a_rating_def)
  show ?thesis
    using rating_range_enforced [of "a_rating 31 21 11 0" bypass_rls 5 db_unrated "Some 1"]
          rating_range_enforced [of "a_rating 31 21 11 6" bypass_rls 5 db_unrated "Some 1"]
          rating_range_enforced [of "a_rating 31 21 11 1" bypass_rls 5 db_unrated "Some 1"]
          rating_range_enforced [of "a_rating 31 21 11 5" bypass_rls 5 db_unrated "Some 1"]
          own rest sub
    by (simp add: val)
qed

lemma or_null_check:
  assumes "0 \<le> x" and "x \<le> 5"
  shows "check_1_5 (or_null x)"
  using assms by (simp add: or_null_def)

lemma found_profile_is_own:
  assumes "find (\<lambda>p. p1_user_id p = u) (profiles1 db) = Some profile"
  shows "p1_id profile \<in> set (own_profile1_ids (Some u) db)"
proof -
  from assms obtain i where "i < length (profiles1 db)" "p1_user_id (profiles1 db ! i) = u"
    "profile = profiles1 db ! i"
    by (auto simp: find_Some_iff)
  then have "profile \<in> set (filter (\<lambda>p. Some (p1_user_id p) = Some u) (profiles1 db))"
    by auto
  then show ?thesis unfolding own_profile1_ids_def by (metis image_eqI set_map)
qed

text \<open>
  C4 (one rating per vendor and reviewer). When the table already holds a rating of
  the vendor by the profile, an insert of another one fails for every caller and
  leaves the database as it was. For a caller who inserts for a profile of their own
  a row that passes the \<^verbatim>\<open>CHECK\<close> constraints, the error is \<open>unique_violation\<close>, the
  specification's ConflictError. The rating form of the client reaches the same
  constraint of migration 001: submitting a well-formed form for a vendor the
  caller's profile has rated shows that error and changes nothing.
\<close>

theorem duplicate_rating_rejected:
  "(list_ex (\<lambda>r'. r_vendor_id r' = r_vendor_id r \<and> r_customer_id r' = r_customer_id r)
      (ratings db)
    \<longrightarrow> (\<exists>e. rls_insert_into_ratings uid now r db = Inl e)
        \<and> (users_can_rate_vendors uid db r \<and> ratings_check r
             \<longrightarrow> rls_insert_into_ratings uid now r db = Inl unique_violation)
        \<and> state_after db (rls_insert_into_ratings uid now r db) = db)
   \<and> (find (\<lambda>p. p1_user_id p = u) (profiles1 d) = Some profile
       \<and> g_vendor_id formData = Some vid
       \<and> list_ex (\<lambda>r'. r1_reviewer_id r' = p1_id profile \<and> r1_vendor_id r' = vid) (ratings1 d)
       \<and> 1 \<le> g_rating formData \<and> g_rating formData \<le> 5
       \<and> 0 \<le> g_food_quality_rating formData \<and> g_food_quality_rating formData \<le> 5
       \<and> 0 \<le> g_price_rating formData \<and> g_price_rating formData \<le> 5
       \<and> 0 \<le> g_hygiene_rating formData \<and> g_hygiene_rating formData \<le> 5
    \<longrightarrow> Ratings_handleSubmit (Some u) now gen_random_uuid formData d
          = (toast_error (database_error unique_violation), d))"
proof (intro conjI impI)
  assume dup: "list_ex (\<lambda>r'. r_vendor_id r' = r_vendor_id r \<and> r_customer_id r' = r_customer_id r)
      (ratings db)"
  then have nu: "\<not> ratings_unique r (ratings db)"
    by (simp add: ratings_unique_def)
  then have raw: "insert_into_ratings (api uid) now r db
      = Inl (if ratings_check r then unique_violation else check_violation)"
    by (simp add: insert_into_ratings_def)
  show "\<exists>e. rls_insert_into_ratings uid now r db = Inl e"
    using raw by (simp add: rls_insert_into_ratings_def)
  show "state_after db (rls_insert_into_ratings uid now r db) = db"
    using raw by (simp add: rls_insert_into_ratings_def state_after_def)
  show "rls_insert_into_ratings uid now r db = Inl unique_violation"
    if "users_can_rate_vendors uid db r \<and> ratings_check r"
    using raw that by (simp add: rls_insert_into_ratings_def)
next
  let ?row = "rating_of_form gen_random_uuid now (p1_id profile) vid formData"
  assume h: "find (\<lambda>p. p1_user_id p = u) (profiles1 d) = Some profile
       \<and> g_vendor_id formData = Some vid
       \<and> list_ex (\<lambda>r'. r1_reviewer_id r' = p1_id profile \<and> r1_vendor_id r' = vid) (ratings1 d)
       \<and> 1 \<le> g_rating formData \<and> g_rating formData \<le> 5
       \<and> 0 \<le> g_food_quality_rating formData \<and> g_food_quality_rating formData \<le> 5
       \<and> 0 \<le> g_price_rating formData \<and> g_price_rating formData \<le> 5
       \<and> 0 \<le> g_hygiene_rating formData \<and> g_hygiene_rating formData \<le> 5"
  have own: "users_can_create_ratings (Some u) d ?row"
    using found_profile_is_own [of u d profile] h
    by (simp add: users_can_create_ratings_def rating_of_form_def)
  have chk: "ratings1_check ?row"
    using h by (simp add: ratings1_check_def rating_of_form_def or_null_check)
  have dup: "\<not> ratings1_unique ?row (ratings1 d)"
    using h by (simp add: ratings1_unique_def rating_of_form_def)
  have "rls_insert_into_ratings1 (Some u) ?row d = Inl unique_violation"
    using own chk dup by (simp add: rls_insert_into_ratings1_def insert_into_ratings1_def)
  then show "Ratings_handleSubmit (Some u) now gen_random_uuid formData d
          = (toast_error (database_error unique_violation), d)"
    using h by (simp add: Ratings_handleSubmit_def)
qed

theorem duplicate_rating_rejected_witness:
  "rls_insert_into_ratings (Some 1) 8 (a_rating 33 21 11 5) db_one_rating = Inl unique_violation
   \<and> state_after db_one_rating
        (rls_insert_into_ratings (Some 1) 8 (a_rating 33 21 11 5) db_one_rating) = db_one_rating
   \<and> Ratings_handleSubmit (Some 1) 8 33 (a_rating_form 21 5) db1
        = (toast_error (database_error unique_violation), db1)"
proof -
  have dup: "list_ex (\<lambda>r'. r_vendor_id r' = r_vendor_id (a_rating 33 21 11 5)
                         \<and> r_customer_id r' = r_customer_id (a_rating 33 21 11 5))
               (ratings db_one_rating)"
    by (simp add: db_one_rating_def a_rating_def)
  have own: "users_can_rate_vendors (Some 1) db_one_rating (a_rating 33 21 11 5)
             \<and> ratings_check (a_rating 33 21 11 5)"
    by (simp add: users_can_rate_vendors_def own_profile_ids_def db_one_rating_def
        the_profiles_def a_profile_def a_rating_def ratings_check_def)
  have form: "find (\<lambda>p. p1_user_id p = 1) (profiles1 db1) = Some (a_profile1 11 1 ''consumer'')
       \<and> g_vendor_id (a_rating_form 21 5) = Some 21
       \<and> list_ex (\<lambda>r'. r1_reviewer_id r' = p1_id (a_profile1 11 1 ''consumer'') \<and> r1_vendor_id r' = 21)
            (ratings1 db1)
       \<and> 1 \<le> g_rating (a_rating_form 21 5) \<and> g_rating (a_rating_form 21 5) \<le> 5
       \<and> 0 \<le> g_food_quality_rating (a_rating_form 21 5)
       \<and> g_food_quality_rating (a_rating_form 21 5) \<le> 5
       \<and> 0 \<le> g_price_rating (a_rating_form 21 5) \<and> g_price_rating (a_rating_form 21 5) \<le> 5
       \<and> 0 \<le> g_hygiene_rating (a_rating_form 21 5) \<and> g_hygiene_rating (a_rating_form 21 5) \<le> 5"
    by (simp add: db1_def a_profile1_def a_rating_form_def a_rating1_def)
  show ?thesis
    using duplicate_rating_rejected [of "a_rating 33 21 11 5" db_one_rating "Some 1" 8 1 db1
            "a_profile1 11 1 ''consumer''" "a_rating_form 21 5" 21 33]
          dup own form
    by blast
qed

subsection \<open>Who may update a complaint\<close>

lemma authority_sees_every_complaint:
  "has_authority_role uid db \<Longrightarrow> users_can_view_complaints uid db c"
  by (simp add: users_can_view_complaints_def)


text \<open>
  C5 (who may update a complaint), as amended. Under migration 000 the update policy
  asks for a profile of the caller with role authority or admin and nothing else: such
  a caller's update reaches the table, and the update of anyone else, the complainant
  included, changes nothing. Under migration 001 the policy asks that the row's
  \<^verbatim>\<open>complainant_id\<close> is a profile of the caller: such a caller's update reaches the
  table if the new row still names a profile of theirs and is an
  \<open>insufficient_privilege\<close> error if not, and the update of anyone else, an admin
  included, changes nothing. In both migrations the update of a caller the policy
  excludes is not an error: it finds no row.
\<close>

theorem complaint_update_policy:
  "(has_authority_role uid db
      \<longrightarrow> rls_update_complaints uid now cid f db = update_complaints now cid f db)
   \<and> (\<not> has_authority_role uid db \<longrightarrow> rls_update_complaints uid now cid f db = Inr db)
   \<and> (find (\<lambda>c. c1_id c = cid) (complaints1 d) = Some old
       \<longrightarrow> (c1_complainant_id old \<in> set (own_profile1_ids uid d)
              \<and> c1_complainant_id (g old) \<in> set (own_profile1_ids uid d)
             \<longrightarrow> rls_update_complaints1 uid now cid g d = update_complaints1 now cid g d)
         \<and> (c1_complainant_id old \<in> set (own_profile1_ids uid d)
              \<and> c1_complainant_id (g old) \<notin> set (own_profile1_ids uid d)
             \<longrightarrow> rls_update_complaints1 uid now cid g d = Inl insufficient_privilege)
         \<and> (c1_complainant_id old \<notin> set (own_profile1_ids uid d)
             \<longrightarrow> rls_update_complaints1 uid now cid g d = Inr d))"
proof (intro conjI impI)
  assume a: "has_authority_role uid db"
  show "rls_update_complaints uid now cid f db = update_complaints now cid f db"
  proof (cases "find (\<lambda>c. c_id c = cid) (complaints db)")
    case None
    then show ?thesis by (simp add: rls_update_complaints_def update_complaints_def)
  next
    case (Some old)
    then show ?thesis
      using a authority_sees_every_complaint [OF a]
      by (simp add: rls_update_complaints_def authorities_can_update_complaints_def Let_def)
  qed
next
  assume n: "\<not> has_authority_role uid db"
  show "rls_update_complaints uid now cid f db = Inr db"
    using n
    by (simp add: rls_update_complaints_def authorities_can_update_complaints_def Let_def
        split: option.splits)
next
  assume "find (\<lambda>c. c1_id c = cid) (complaints1 d) = Some old"
    and "c1_complainant_id old \<in> set (own_profile1_ids uid d)
         \<and> c1_complainant_id (g old) \<in> set (own_profile1_ids uid d)"
  then show "rls_update_complaints1 uid now cid g d = update_complaints1 now cid g d"
    by (simp add: rls_update_complaints1_def complainants_can_update_their_complaints_def
        update_updated_at_column1_def)
next
  assume "find (\<lambda>c. c1_id c = cid) (complaints1 d) = Some old"
    and "c1_complainant_id old \<in> set (own_profile1_ids uid d)
         \<and> c1_complainant_id (g old) \<notin> set (own_profile1_ids uid d)"
  then show "rls_update_complaints1 uid now cid g d = Inl insufficient_privilege"
    by (simp add: rls_update_complaints1_def complainants_can_update_their_complaints_def
        update_updated_at_column1_def)
next
  assume "find (\<lambda>c. c1_id c = cid) (complaints1 d) = Some old"
    and "c1_complainant_id old \<notin> set (own_profile1_ids uid d)"
  then show "rls_update_complaints1 uid now cid g d = Inr d"
    by (simp add: rls_update_complaints1_def complainants_can_update_their_complaints_def)
qed

text \<open>
  The claim as stated fails. Under migration 000 user 1 owns profile 11, which filed
  complaint 41, and is a consumer: the update is not an error and changes nothing, and
  so is the update of user 2, who neither filed the complaint nor has a role. Under
  migration 001 the same happens to user 4, an admin.
\<close>

theorem complainant_update_is_silently_ignored:
  "c_complainant_id (a_complaint 41 11 (Some 21)) \<in> set (own_profile_ids (Some 1) db_complaint)
   \<and> rls_update_complaints (Some 1) 9 41 (set_title ''Clean now'') db_complaint = Inr db_complaint
   \<and> rls_update_complaints (Some 2) 9 41 (set_title ''Clean now'') db_complaint = Inr db_complaint
   \<and> rls_update_complaints1 (Some 4) 9 41 (set_title1 ''Clean now'') db1 = Inr db1"
  by code_simp

theorem complaint_update_policy_witness:
  "rls_update_complaints (Some 4) 9 41 (set_status investigating) db_complaint
     = Inr (db_complaint\<lparr>complaints := [set_status investigating (a_complaint 41 11 (Some 21))
                                          \<lparr>c_updated_at := 9\<rparr>]\<rparr>)
   \<and> rls_update_complaints (Some 1) 9 41 (set_status investigating) db_complaint = Inr db_complaint
   \<and> rls_update_complaints1 (Some 1) 9 41 (set_title1 ''Clean now'') db1
     = Inr (db1\<lparr>complaints1 := [set_title1 ''Clean now'' (a_complaint1 41 11 (Some 21) 9),
                                 a_complaint1 42 12 (Some 22) 0]\<rparr>)
   \<and> rls_update_complaints1 (Some 1) 9 41 (set_complainant_id1 12) db1 = Inl insufficient_privilege
   \<and> rls_update_complaints1 (Some 4) 9 41 (set_title1 ''Clean now'') db1 = Inr db1"
proof -
  have a4: "has_authority_role (Some 4) db_complaint" by code_simp
  have a1: "\<not> has_authority_role (Some 1) db_complaint" by code_simp
  have raw: "update_complaints 9 41 (set_status investigating) db_complaint
     = Inr (db_complaint\<lparr>complaints := [set_status investigating (a_complaint 41 11 (Some 21))
                                          \<lparr>c_updated_at := 9\<rparr>]\<rparr>)"
    by code_simp
  have f: "find (\<lambda>c. c1_id c = 41) (complaints1 db1) = Some (a_complaint1 41 11 (Some 21) 0)"
    by code_simp
  have o1: "c1_complainant_id (a_complaint1 41 11 (Some 21) 0) \<in> set (own_profile1_ids (Some 1) db1)
       \<and> c1_complainant_id (set_title1 ''Clean now'' (a_complaint1 41 11 (Some 21) 0))
            \<in> set (own_profile1_ids (Some 1) db1)
       \<and> c1_complainant_id (set_complainant_id1 12 (a_complaint1 41 11 (Some 21) 0))
            \<notin> set (own_profile1_ids (Some 1) db1)
       \<and> c1_complainant_id (a_complaint1 41 11 (Some 21) 0) \<notin> set (own_profile1_ids (Some 4) db1)"
    by code_simp
  have raw1: "update_complaints1 9 41 (set_title1 ''Clean now'') db1
     = Inr (db1\<lparr>complaints1 := [set_title1 ''Clean now'' (a_complaint1 41 11 (Some 21) 9),
                                 a_complaint1 42 12 (Some 22) 0]\<rparr>)"
    by code_simp
  show ?thesis
    using complaint_update_policy [where uid = "Some 4" and db = db_complaint and now = 9
             and cid = 41 and f = "set_status investigating"]
          complaint_update_policy [where uid = "Some 1" and db = db_complaint and now = 9
             and cid = 41 and f = "set_status investigating"]
          complaint_update_policy [where uid = "Some 1" and d = db1 and now = 9 and cid = 41
             and old = "a_complaint1 41 11 (Some 21) 0" and g = "set_title1 ''Clean now''"]
          complaint_update_policy [where uid = "Some 1" and d = db1 and now = 9 and cid = 41
             and old = "a_complaint1 41 11 (Some 21) 0" and g = "set_complainant_id1 12"]
          complaint_update_policy [where uid = "Some 4" and d = db1 and now = 9 and cid = 41
             and old = "a_complaint1 41 11 (Some 21) 0" and g = "set_title1 ''Clean now''"]
          a4 a1 raw f o1 raw1
    by simp
qed

subsection \<open>The resolution timestamp of a complaint\<close>








subsection \<open>Deleting a vendor that complaints refer to\<close>





subsection \<open>The profile of a new identity\<close>

lemma new_profile_fields:
  "p1_id (new_profile now g NEW) = g
   \<and> p1_user_id (new_profile now g NEW) = u_id NEW
   \<and> p1_full_name (new_profile now g NEW)
       = (case jsonb_object_field_text (u_raw_user_meta_data NEW) ''full_name'' of
            None \<Rightarrow> ''User'' | Some n \<Rightarrow> n)
   \<and> p1_phone (new_profile now g NEW) = u_phone NEW
   \<and> p1_area_id (new_profile now g NEW) = None
   \<and> p1_user_type (new_profile now g NEW) = ''consumer''"
  by (simp add: new_profile_def split: option.splits)

lemma no_profile_of_unknown_user:
  assumes "list_all (\<lambda>p. p1_user_id p \<in> set (map u_id us)) ps"
      and "\<not> list_ex (\<lambda>u. u_id u = i) us"
  shows "filter (\<lambda>p. p1_user_id p = i) ps = []"
  using assms by (induction ps) (auto simp: list_ex_iff)

lemma insert_into_users_creates_profile:
  assumes fresh: "\<not> list_ex (\<lambda>u. u_id u = u_id NEW) (users d)"
      and fk: "list_all (\<lambda>p. p1_user_id p \<in> set (map u_id (users d))) (profiles1 d)"
      and gen: "\<not> list_ex (\<lambda>p. p1_id p = g) (profiles1 d)"
  shows "insert_into_users now g NEW d =
           Inr (d\<lparr>users := users d @ [NEW],
                  profiles1 := profiles1 d @ [new_profile now g NEW]\<rparr>)"
proof -
  have none: "filter (\<lambda>p. p1_user_id p = u_id NEW) (profiles1 d) = []"
    by (rule no_profile_of_unknown_user [OF fk fresh])
  then have "\<not> list_ex (\<lambda>p. p1_user_id p = u_id NEW) (profiles1 d)"
    by (auto simp: list_ex_iff filter_empty_conv)
  then have u: "profiles1_unique (new_profile now g NEW) (profiles1 d)"
    using gen by (simp add: profiles1_unique_def new_profile_fields)
  have c: "profiles1_check (new_profile now g NEW)"
    by (simp add: profiles1_check_def new_profile_fields)
  have r: "profiles1_references (new_profile now g NEW) (d\<lparr>users := users d @ [NEW]\<rparr>)"
    by (simp add: profiles1_references_def references_opt_def new_profile_fields)
  show ?thesis
    using fresh u c r
    by (simp add: insert_into_users_def handle_new_user_def insert_into_profiles1_def)
qed

text \<open>
  C9 (a profile for every new identity), as amended. Migration 001 only; migration 000
  has no such trigger. When the identity is new, every profile in the database belongs
  to an identity that exists (the foreign key of \<^verbatim>\<open>profiles.user_id\<close>) and the generated
  profile id is not in use, creating the identity succeeds and adds exactly one
  profile for it: the name is the \<^verbatim>\<open>full_name\<close> of the metadata, or \<^verbatim>\<open>'User'\<close> when
  there is none, the phone is the identity's, the user type is \<^verbatim>\<open>'consumer'\<close> and
  the area is null. The insert of the profile is not best-effort: when it raises an
  error, creating the identity fails with that error and the database is as before.
\<close>

theorem new_identity_gets_one_profile:
  "(\<not> list_ex (\<lambda>u. u_id u = u_id NEW) (users d)
    \<and> list_all (\<lambda>p. p1_user_id p \<in> set (map u_id (users d))) (profiles1 d)
    \<and> \<not> list_ex (\<lambda>p. p1_id p = g) (profiles1 d)
    \<longrightarrow> (\<exists>d'. insert_into_users now g NEW d = Inr d'
             \<and> users d' = users d @ [NEW]
             \<and> profiles1 d' = profiles1 d @ [new_profile now g NEW]
             \<and> filter (\<lambda>p. p1_user_id p = u_id NEW) (profiles1 d') = [new_profile now g NEW]))
   \<and> p1_full_name (new_profile now g NEW)
       = (case jsonb_object_field_text (u_raw_user_meta_data NEW) ''full_name'' of
            None \<Rightarrow> ''User'' | Some n \<Rightarrow> n)
   \<and> p1_phone (new_profile now g NEW) = u_phone NEW
   \<and> p1_user_type (new_profile now g NEW) = ''consumer''
   \<and> p1_area_id (new_profile now g NEW) = None
   \<and> (\<not> list_ex (\<lambda>u. u_id u = u_id NEW) (users d)
       \<and> handle_new_user now g NEW (d\<lparr>users := users d @ [NEW]\<rparr>) = Inl e
      \<longrightarrow> insert_into_users now g NEW d = Inl e
          \<and> state_after d (insert_into_users now g NEW d) = d)"
proof (intro conjI impI)
  assume h: "\<not> list_ex (\<lambda>u. u_id u = u_id NEW) (users d)
    \<and> list_all (\<lambda>p. p1_user_id p \<in> set (map u_id (users d))) (profiles1 d)
    \<and> \<not> list_ex (\<lambda>p. p1_id p = g) (profiles1 d)"
  then have r: "insert_into_users now g NEW d =
           Inr (d\<lparr>users := users d @ [NEW],
                  profiles1 := profiles1 d @ [new_profile now g NEW]\<rparr>)"
    by (intro insert_into_users_creates_profile) simp_all
  have "filter (\<lambda>p. p1_user_id p = u_id NEW) (profiles1 d) = []"
    using h by (intro no_profile_of_unknown_user [where us = "users d"]) simp_all
  then show "\<exists>d'. insert_into_users now g NEW d = Inr d'
             \<and> users d' = users d @ [NEW]
             \<and> profiles1 d' = profiles1 d @ [new_profile now g NEW]
             \<and> filter (\<lambda>p. p1_user_id p = u_id NEW) (profiles1 d') = [new_profile now g NEW]"
    using r by (simp add: new_profile_fields)
next
  assume h: "\<not> list_ex (\<lambda>u. u_id u = u_id NEW) (users d)
       \<and> handle_new_user now g NEW (d\<lparr>users := users d @ [NEW]\<rparr>) = Inl e"
  then show "insert_into_users now g NEW d = Inl e"
    by (simp add: insert_into_users_def)
  then show "state_after d (insert_into_users now g NEW d) = d"
    by (simp add: state_after_def)
qed (simp_all add: new_profile_fields)

text \<open>
  The claim as stated fails in its last part. Identity 5 is new; the generated profile
  id is 11, which profile 11 has. The insert of the profile is a \<open>unique_violation\<close>,
  and so is the creation of the identity.
\<close>

theorem profile_error_fails_identity_creation:
  "map u_id (users db1) = [1, 2, 3, 4]
   \<and> u_id (a_user 5) = 5
   \<and> handle_new_user 9 11 (a_user 5) (db1\<lparr>users := users db1 @ [a_user 5]\<rparr>)
       = Inl unique_violation
   \<and> insert_into_users 9 11 (a_user 5) db1 = Inl unique_violation"
  by code_simp

theorem new_identity_gets_one_profile_witness:
  "(\<exists>d'. insert_into_users 9 15 (a_user 5) db1 = Inr d'
        \<and> users d' = users db1 @ [a_user 5]
        \<and> profiles1 d' = profiles1 db1 @ [new_profile 9 15 (a_user 5)]
        \<and> filter (\<lambda>p. p1_user_id p = u_id (a_user 5)) (profiles1 d') = [new_profile 9 15 (a_user 5)])
   \<and> p1_full_name (new_profile 9 15 (a_user 5)) = ''Asha''
   \<and> p1_full_name (new_profile 9 15 \<lparr>u_id = 6, u_raw_user_meta_data = None, u_phone = None\<rparr>)
        = ''User''
   \<and> insert_into_users 9 11 (a_user 5) db1 = Inl unique_violation"
proof -
  have h: "\<not> list_ex (\<lambda>u. u_id u = u_id (a_user 5)) (users db1)
    \<and> list_all (\<lambda>p. p1_user_id p \<in> set (map u_id (users db1))) (profiles1 db1)
    \<and> \<not> list_ex (\<lambda>p. p1_id p = 15) (profiles1 db1)"
    by code_simp
  have n1: "(case jsonb_object_field_text (u_raw_user_meta_data (a_user 5)) ''full_name'' of
            None \<Rightarrow> ''User'' | Some n \<Rightarrow> n) = ''Asha''"
    by (simp add: jsonb_object_field_text_def a_user_def)
  have n2: "(case jsonb_object_field_text
                  (u_raw_user_meta_data \<lparr>u_id = 6, u_raw_user_meta_data = None, u_phone = None\<rparr>)
                  ''full_name'' of
            None \<Rightarrow> ''User'' | Some n \<Rightarrow> n) = ''User''"
    by (simp add: jsonb_object_field_text_def)
  have e: "\<not> list_ex (\<lambda>u. u_id u = u_id (a_user 5)) (users db1)
       \<and> handle_new_user 9 11 (a_user 5) (db1\<lparr>users := users db1 @ [a_user 5]\<rparr>)
           = Inl unique_violation"
    by code_simp
  show ?thesis
    using new_identity_gets_one_profile [where NEW = "a_user 5" and d = db1 and g = 15 and now = 9]
          new_identity_gets_one_profile [where NEW = "a_user 5" and d = db1 and g = 11 and now = 9
             and e = unique_violation]
          new_identity_gets_one_profile
            [where NEW = "\<lparr>u_id = 6, u_raw_user_meta_data = None, u_phone = None\<rparr>" and g = 15
               and now = 9]
          h n1 n2 e
    by simp
qed

subsection \<open>The aggregates shown by the vendor list\<close>






end
